theory Spec2Isabelle
  imports Complex_Main "HOL-Library.Multiset"
begin

section \<open>JavaScript numbers\<close>

text \<open>
  The services compute with JavaScript numbers. They are modelled by the real numbers:
  every arithmetic step is exact and there is no NaN. The one place where the source
  divides by a quantity that can be zero without a guard (the \<open>roi\<close> of
  \<open>optimizeBaganOperations\<close>) is modelled with the result JavaScript gives there,
  a value of \<open>js_number\<close>.
\<close>

text \<open>\<open>Math.round\<close>: the nearest integer, a tie going up.\<close>

definition Math_round :: "real \<Rightarrow> int" where
  "Math_round x = \<lfloor>x + 1 / 2\<rfloor>"

text \<open>
  \<open>parseFloat(x.toFixed(d))\<close>: \<open>x\<close> rounded to \<open>d\<close> decimals, a tie going away
  from zero (\<open>toFixed\<close> formats the magnitude and puts the sign in front).
\<close>

definition toFixed :: "nat \<Rightarrow> real \<Rightarrow> real" where
  "toFixed d x =
     (if x < 0 then - (real_of_int \<lfloor>(- x) * 10 ^ d + 1 / 2\<rfloor> / 10 ^ d)
      else real_of_int \<lfloor>x * 10 ^ d + 1 / 2\<rfloor> / 10 ^ d)"

text \<open>\<open>Math.atan2(y, x)\<close>.\<close>

definition Math_atan2 :: "real \<Rightarrow> real \<Rightarrow> real" where
  "Math_atan2 y x =
     (if 0 < x then arctan (y / x)
      else if x < 0 then (if 0 \<le> y then arctan (y / x) + pi else arctan (y / x) - pi)
      else if 0 < y then pi / 2
      else if y < 0 then - (pi / 2)
      else 0)"

text \<open>
  The value of a division whose divisor may be zero: \<open>x / 0\<close> is \<open>Infinity\<close>,
  \<open>-Infinity\<close> or \<open>NaN\<close> in JavaScript, never an exception. (The divisors of the
  source are results of \<open>Math.round\<close> on a non-negative number, so the zero is \<open>+0\<close>.)
\<close>

datatype js_number = Finite real | PosInfinity | NegInfinity | NaN

definition js_divide :: "real \<Rightarrow> real \<Rightarrow> js_number" where
  "js_divide x y =
     (if y \<noteq> 0 then Finite (x / y)
      else if 0 < x then PosInfinity
      else if x < 0 then NegInfinity
      else NaN)"

fun js_times :: "js_number \<Rightarrow> real \<Rightarrow> js_number" where
  "js_times (Finite x) k = Finite (x * k)"
| "js_times PosInfinity k = (if 0 < k then PosInfinity else if k < 0 then NegInfinity else NaN)"
| "js_times NegInfinity k = (if 0 < k then NegInfinity else if k < 0 then PosInfinity else NaN)"
| "js_times NaN k = NaN"

text \<open>
  \<open>n.toFixed(1)\<close> on such a value: the decimal rounded to one place for a finite
  number; for the others the texts \<open>"Infinity"\<close>, \<open>"-Infinity"\<close> and \<open>"NaN"\<close>, which the
  same constructors stand for.
\<close>

fun js_toFixed1 :: "js_number \<Rightarrow> js_number" where
  "js_toFixed1 (Finite x) = Finite (toFixed 1 x)"
| "js_toFixed1 n = n"

text \<open>
  The exceptions of the modelled code: a property read on \<open>undefined\<close> or \<open>null\<close>, and
  an \<open>Error\<close> with its message (a failed request, or a \<open>throw new Error(...)\<close>).
\<close>

datatype error = TypeError | Error string

section \<open>optimizerService: configuration and data\<close>

record config =
  fuelPricePerLiter :: real
  fuelConsumptionTow :: real
  catchPricePerKg :: real
  minProfitThreshold :: real
  towSpeedKnots :: real
  setupTimeMinutes :: real
  maxTowDistance :: real

text \<open>
  The module's \<open>CONFIG\<close> object. It is mutable (\<open>PUT /api/optimize/config\<close> assigns
  into it), so every function below takes the configuration in force as its first argument.
\<close>

definition CONFIG :: config where
  "CONFIG = \<lparr> fuelPricePerLiter = 10000, fuelConsumptionTow = 4, catchPricePerKg = 35000,
     minProfitThreshold = 50000, towSpeedKnots = 5 / 2, setupTimeMinutes = 20,
     maxTowDistance = 5 \<rparr>"

text \<open>\<open>{lat, lng}\<close>: the vessel's position, and the current position along a route.\<close>

record place =
  lat :: real
  lng :: real

record catch =
  min' :: int
  max' :: int
  avg :: int

text \<open>
  A bagan and a candidate spot are objects of one shape, \<open>{id, name, lat, lng, score}\<close>;
  the spots the scanner builds carry \<open>estimatedCatch\<close> as well.
\<close>

record site = place +
  id' :: string
  name :: string
  score :: real
  estimatedCatch :: "catch option"

definition position :: "site \<Rightarrow> place" where
  "position s = \<lparr> lat = lat s, lng = lng s \<rparr>"

section \<open>optimizerService: helper functions\<close>

definition toRad :: "real \<Rightarrow> real" where
  "toRad degrees = degrees * (pi / 180)"

definition calculateDistance :: "real \<Rightarrow> real \<Rightarrow> real \<Rightarrow> real \<Rightarrow> real" where
  "calculateDistance lat1 lon1 lat2 lon2 =
     (let R = 6371;
          dLat = toRad (lat2 - lat1);
          dLon = toRad (lon2 - lon1);
          a = sin (dLat / 2) * sin (dLat / 2) +
              cos (toRad lat1) * cos (toRad lat2) * sin (dLon / 2) * sin (dLon / 2);
          c = 2 * Math_atan2 (sqrt a) (sqrt (1 - a))
      in R * c)"

definition calculateTowTime :: "config \<Rightarrow> real \<Rightarrow> real" where
  "calculateTowTime cfg distanceKm =
     (let distanceNM = distanceKm * 0.539957;
          hours = distanceNM / towSpeedKnots cfg
      in hours * 60)"

definition calculateFuelCost :: "config \<Rightarrow> real \<Rightarrow> real" where
  "calculateFuelCost cfg distanceKm =
     (let liters = distanceKm * fuelConsumptionTow cfg
      in liters * fuelPricePerLiter cfg)"

definition estimateCatch :: "real \<Rightarrow> catch" where
  "estimateCatch sc =
     (let baseMin = sc * 0.6;
          baseMax = sc * 0.9
      in \<lparr> min' = Math_round baseMin, max' = Math_round baseMax,
           avg = Math_round ((baseMin + baseMax) / 2) \<rparr>)"

section \<open>optimizerService: should this bagan move?\<close>

text \<open>
  The text \<open>Too far (D km > M km max)\<close> of the source's template literal, kept as its two
  interpolated numbers: \<open>D\<close> is \<open>distance.toFixed(1)\<close> and \<open>M\<close> is \<open>CONFIG.maxTowDistance\<close>.
\<close>

datatype reason_text = TooFar (shown_distance: real) (shown_max: real)

record analysis =
  currentScore :: real
  targetScore :: real
  scoreDelta :: real
  distance :: real
  towTime :: int
  setupTime :: real
  totalTime :: int
  fuelCost :: int
  currentExpectedCatch :: "catch"
  targetExpectedCatch :: "catch"
  extraCatch :: int
  extraRevenue :: int
  netProfit :: int
  roi :: int
  worthIt :: bool

text \<open>
  The two objects \<open>shouldMoveBagan\<close> returns: \<open>{shouldMove: false, reason}\<close> from the
  distance check, and \<open>{shouldMove, analysis}\<close> at the end.
\<close>

datatype decision = Rejected reason_text | Analysed bool analysis

fun shouldMove :: "decision \<Rightarrow> bool" where
  "shouldMove (Rejected r) = False"
| "shouldMove (Analysed b a) = b"

fun decision_reason :: "decision \<Rightarrow> reason_text option" where
  "decision_reason (Rejected r) = Some r"
| "decision_reason (Analysed b a) = None"

fun decision_analysis :: "decision \<Rightarrow> analysis option" where
  "decision_analysis (Rejected r) = None"
| "decision_analysis (Analysed b a) = Some a"

definition shouldMoveBagan :: "config \<Rightarrow> site \<Rightarrow> site \<Rightarrow> decision" where
  "shouldMoveBagan cfg currentBagan targetSpot =
     (let dist_km = calculateDistance (lat currentBagan) (lng currentBagan)
                      (lat targetSpot) (lng targetSpot)
      in if dist_km > maxTowDistance cfg
         then Rejected (TooFar (toFixed 1 dist_km) (maxTowDistance cfg))
         else
           (let tow = calculateTowTime cfg dist_km;
                setup = setupTimeMinutes cfg;
                total = tow + setup;
                fuel = calculateFuelCost cfg dist_km;
                currentCatch = estimateCatch (score currentBagan);
                targetCatch = estimateCatch (score targetSpot);
                extraCatchAvg = avg targetCatch - avg currentCatch;
                revenue = real_of_int extraCatchAvg * catchPricePerKg cfg;
                net = revenue - fuel;
                roi_pct = (if fuel > 0 then (net / fuel) * 100 else 0);
                move = (net \<ge> minProfitThreshold cfg)
            in Analysed move
                 \<lparr> currentScore = score currentBagan,
                   targetScore = score targetSpot,
                   scoreDelta = score targetSpot - score currentBagan,
                   distance = toFixed 2 dist_km,
                   towTime = Math_round tow,
                   setupTime = setup,
                   totalTime = Math_round total,
                   fuelCost = Math_round fuel,
                   currentExpectedCatch = currentCatch,
                   targetExpectedCatch = targetCatch,
                   extraCatch = extraCatchAvg,
                   extraRevenue = Math_round revenue,
                   netProfit = Math_round net,
                   roi = Math_round roi_pct,
                   worthIt = move \<rparr>))"

section \<open>optimizerService: the best spot for each bagan\<close>

text \<open>The three variables of the loop over the available spots.\<close>

record search =
  bestSpot :: "site option"
  bestAnalysis :: "analysis option"
  maxProfit :: real

text \<open>
  One turn of the inner loop. \<open>decision.shouldMove && decision.analysis.netProfit > maxProfit\<close>
  reads \<open>analysis\<close> only when \<open>shouldMove\<close> is true, which the rejected decision never is.
\<close>

definition considerSpot :: "config \<Rightarrow> site \<Rightarrow> search \<Rightarrow> site \<Rightarrow> search" where
  "considerSpot cfg b st spot =
     (case shouldMoveBagan cfg b spot of
        Rejected r \<Rightarrow> st
      | Analysed move a \<Rightarrow>
          if move \<and> real_of_int (netProfit a) > maxProfit st
          then \<lparr> bestSpot = Some spot, bestAnalysis = Some a,
                 maxProfit = real_of_int (netProfit a) \<rparr>
          else st)"

definition searchSpots :: "config \<Rightarrow> site \<Rightarrow> site list \<Rightarrow> search" where
  "searchSpots cfg b availableSpots =
     foldl (considerSpot cfg b)
       \<lparr> bestSpot = None, bestAnalysis = None, maxProfit = minProfitThreshold cfg \<rparr>
       availableSpots"

record currentAnalysis =
  current_score :: real
  expectedCatch :: "catch"

text \<open>
  The \<open>recommendation\<close> object: \<open>{action: 'move', targetSpot, analysis}\<close> or
  \<open>{action: 'stay', reason, currentAnalysis}\<close>. The \<open>analysis\<close> of a move is the
  variable \<open>bestAnalysis\<close>, which starts as \<open>null\<close>.
\<close>

datatype recommendation =
    Move (targetSpot: site) (move_analysis: "analysis option")
  | Stay (stay_reason: string) (stay_analysis: currentAnalysis)

record recommended =
  bagan :: site
  recommendation :: recommendation

definition recommend :: "config \<Rightarrow> site \<Rightarrow> site list \<Rightarrow> recommended" where
  "recommend cfg b availableSpots =
     (let st = searchSpots cfg b availableSpots
      in \<lparr> bagan = b,
           recommendation =
             (case bestSpot st of
                Some spot \<Rightarrow> Move spot (bestAnalysis st)
              | None \<Rightarrow>
                  Stay (if bestAnalysis st \<noteq> None then ''Not profitable enough''
                        else ''No better spot found'')
                    \<lparr> current_score = score b, expectedCatch = estimateCatch (score b) \<rparr>) \<rparr>)"

definition findBestSpots :: "config \<Rightarrow> site list \<Rightarrow> site list \<Rightarrow> recommended list" where
  "findBestSpots cfg currentBagans availableSpots =
     map (\<lambda>b. recommend cfg b availableSpots) currentBagans"

section \<open>optimizerService: route optimisation\<close>

text \<open>
  \<open>optimizeRoute\<close> receives the recommendations whose action is \<open>'move'\<close>: an item holds
  \<open>item.bagan\<close>, \<open>item.recommendation.targetSpot\<close> and \<open>item.recommendation.analysis\<close>.
\<close>

record moveItem =
  item_bagan :: site
  item_targetSpot :: site
  item_analysis :: "analysis option"

fun generatePermutations :: "'a list \<Rightarrow> 'a list list" where
  "generatePermutations arr =
     (if length arr \<le> 1 then [arr]
      else concat (map (\<lambda>i. map (\<lambda>perm. arr ! i # perm)
                                (generatePermutations (take i arr @ drop (i + 1) arr)))
                       [0..<length arr]))"

declare generatePermutations.simps [simp del]

text \<open>The inner loop of the search: the length of one visiting order.\<close>

fun routeDistanceFrom :: "real \<Rightarrow> place \<Rightarrow> moveItem list \<Rightarrow> real" where
  "routeDistanceFrom dist_km currentPos [] = dist_km"
| "routeDistanceFrom dist_km currentPos (item # rest) =
     routeDistanceFrom
       (dist_km
          + calculateDistance (lat currentPos) (lng currentPos)
              (lat (item_bagan item)) (lng (item_bagan item))
          + calculateDistance (lat (item_bagan item)) (lng (item_bagan item))
              (lat (item_targetSpot item)) (lng (item_targetSpot item)))
       (position (item_targetSpot item)) rest"

definition routeDistance :: "place \<Rightarrow> moveItem list \<Rightarrow> real" where
  "routeDistance kapalPosition perm = routeDistanceFrom 0 kapalPosition perm"

text \<open>
  The outer loop uses the number the inner loop leaves in \<open>distance\<close> in one way only: it
  compares it with \<open>minDistance\<close>. So the outer loop is written for any evaluation
  \<open>totalOf\<close> of the inner loop, with values in any linear order \<open>'n\<close>: \<open>routeDistance\<close> is
  the evaluation in exact arithmetic, and the sums of IEEE doubles that the program
  computes are another one (finite doubles are a linear order; no sum is taken to be
  \<open>NaN\<close> or infinite).

  The two variables of the outer loop; \<open>minDistance = None\<close> is the initial \<open>Infinity\<close>,
  below which every total lies.
\<close>

record 'n selection =
  bestRoute :: "moveItem list option"
  minDistance :: "'n option"

definition considerRoute ::
  "(moveItem list \<Rightarrow> 'n::linorder) \<Rightarrow> 'n selection \<Rightarrow> moveItem list \<Rightarrow> 'n selection" where
  "considerRoute totalOf st perm =
     (let dist_km = totalOf perm
      in if (case minDistance st of None \<Rightarrow> True | Some m \<Rightarrow> dist_km < m)
         then \<lparr> bestRoute = Some perm, minDistance = Some dist_km \<rparr>
         else st)"

definition selectRoute ::
  "(moveItem list \<Rightarrow> 'n::linorder) \<Rightarrow> moveItem list list \<Rightarrow> 'n selection" where
  "selectRoute totalOf permutations =
     foldl (considerRoute totalOf) \<lparr> bestRoute = None, minDistance = None \<rparr> permutations"

record routeStep =
  step :: nat
  baganId :: string
  baganName :: string
  action :: string
  from_pos :: place
  pickupLocation :: place
  targetLocation :: site
  distanceToPickup :: real
  distanceToTow :: real
  totalStepDistance :: real
  timeToPickup :: int
  timeToTow :: int
  step_setupTime :: real
  totalStepTime :: int
  cumulativeDistance :: real
  cumulativeTime :: int
  step_targetScore :: real
  expectedProfit :: int

text \<open>
  The loop that writes the route details, from step index \<open>i\<close>, position \<open>currentPos\<close> and
  the running totals; it returns the steps and the final totals. Reading
  \<open>item.recommendation.analysis.distance\<close> on an analysis that is \<open>null\<close> is a TypeError.
\<close>

fun routeDetailsFrom ::
  "config \<Rightarrow> nat \<Rightarrow> place \<Rightarrow> real \<Rightarrow> real \<Rightarrow> moveItem list
     \<Rightarrow> error + (routeStep list \<times> real \<times> real)" where
  "routeDetailsFrom cfg i currentPos cumTime cumDist [] = Inr ([], cumDist, cumTime)"
| "routeDetailsFrom cfg i currentPos cumTime cumDist (item # rest) =
     (case item_analysis item of
        None \<Rightarrow> Inl TypeError
      | Some an \<Rightarrow>
         (let distToPickup = calculateDistance (lat currentPos) (lng currentPos)
                               (lat (item_bagan item)) (lng (item_bagan item));
              distToTow = distance an;
              tPickup = calculateTowTime cfg distToPickup;
              tTow = real_of_int (towTime an);
              setup = setupTimeMinutes cfg;
              stepDistance = distToPickup + distToTow;
              stepTime = tPickup + tTow + setup;
              cumDist' = cumDist + stepDistance;
              cumTime' = cumTime + stepTime;
              detail = \<lparr> step = i + 1,
                         baganId = id' (item_bagan item),
                         baganName = name (item_bagan item),
                         action = ''pickup'',
                         from_pos = currentPos,
                         pickupLocation =
                           \<lparr> lat = lat (item_bagan item), lng = lng (item_bagan item) \<rparr>,
                         targetLocation = item_targetSpot item,
                         distanceToPickup = toFixed 2 distToPickup,
                         distanceToTow = toFixed 2 distToTow,
                         totalStepDistance = toFixed 2 stepDistance,
                         timeToPickup = Math_round tPickup,
                         timeToTow = Math_round tTow,
                         step_setupTime = setup,
                         totalStepTime = Math_round stepTime,
                         cumulativeDistance = toFixed 2 cumDist',
                         cumulativeTime = Math_round cumTime',
                         step_targetScore = score (item_targetSpot item),
                         expectedProfit = netProfit an \<rparr>
          in case routeDetailsFrom cfg (i + 1) (position (item_targetSpot item))
                    cumTime' cumDist' rest of
               Inl e \<Rightarrow> Inl e
             | Inr (details, d, t) \<Rightarrow> Inr (detail # details, d, t)))"

record routeSummary =
  totalBagans :: nat
  totalDistance :: real
  totalTime :: int
  totalFuelCost :: int
  totalExpectedProfit :: int

text \<open>
  The two objects \<open>optimizeRoute\<close> returns: \<open>{route, totalDistance, totalTime}\<close> for a
  single item, \<open>{route, summary}\<close> for two or more. Only the second has a \<open>summary\<close>.
\<close>

datatype routePlan =
    SingleRoute (single_route: "moveItem list") (single_totalDistance: real)
      (single_totalTime: real)
  | FullRoute (full_route: "routeStep list") (full_summary: routeSummary)

fun plan_summary :: "routePlan \<Rightarrow> routeSummary option" where
  "plan_summary (SingleRoute r d t) = None"
| "plan_summary (FullRoute r s) = Some s"

text \<open>
  The \<open>reduce\<close> over \<open>item.recommendation.analysis.netProfit\<close>. It runs after the details
  loop, which has read every item's analysis already, so no analysis is \<open>null\<close> here.
\<close>

definition sumExpectedProfit :: "moveItem list \<Rightarrow> int" where
  "sumExpectedProfit best =
     foldl (\<lambda>acc item. acc + (case item_analysis item of Some an \<Rightarrow> netProfit an | None \<Rightarrow> 0))
       0 best"

text \<open>The second half of \<open>optimizeRoute\<close>: the plan for the chosen order.\<close>

definition describeRoute :: "config \<Rightarrow> place \<Rightarrow> moveItem list \<Rightarrow> error + routePlan option" where
  "describeRoute cfg kapalPosition best =
     (case routeDetailsFrom cfg 0 kapalPosition 0 0 best of
        Inl e \<Rightarrow> Inl e
      | Inr (routeDetails, cumDist, cumTime) \<Rightarrow>
          Inr (Some (FullRoute routeDetails
            \<lparr> totalBagans = length best,
              totalDistance = toFixed 2 cumDist,
              totalTime = Math_round cumTime,
              totalFuelCost = Math_round (calculateFuelCost cfg cumDist),
              totalExpectedProfit = sumExpectedProfit best \<rparr>)))"

text \<open>
  The body of \<open>optimizeRoute\<close>, for the evaluation \<open>totalOf\<close> of the inner loop. \<open>null\<close>
  is \<open>None\<close>. After the search, \<open>bestRoute.length\<close> on a \<open>bestRoute\<close> that is still
  \<open>null\<close> would be a TypeError.
\<close>

definition optimizeRouteBy ::
  "(moveItem list \<Rightarrow> 'n::linorder) \<Rightarrow> config \<Rightarrow> place \<Rightarrow> moveItem list
     \<Rightarrow> error + routePlan option" where
  "optimizeRouteBy totalOf cfg kapalPosition bagansToMove =
     (if length bagansToMove = 0 then Inr None
      else if length bagansToMove = 1 then
        Inr (Some (SingleRoute [bagansToMove ! 0]
          (calculateDistance (lat kapalPosition) (lng kapalPosition)
             (lat (item_bagan (bagansToMove ! 0))) (lng (item_bagan (bagansToMove ! 0))))
          0))
      else
        (case bestRoute (selectRoute totalOf (generatePermutations bagansToMove)) of
           None \<Rightarrow> Inl TypeError
         | Some best \<Rightarrow> describeRoute cfg kapalPosition best))"

text \<open>\<open>optimizeRoute\<close> in the number model of this theory: the totals are exact.\<close>

definition optimizeRoute :: "config \<Rightarrow> place \<Rightarrow> moveItem list \<Rightarrow> error + routePlan option" where
  "optimizeRoute cfg kapalPosition bagansToMove =
     optimizeRouteBy (routeDistance kapalPosition) cfg kapalPosition bagansToMove"

section \<open>optimizerService: the main function\<close>

record input =
  kapalPosition :: place
  currentBagans :: "site list"
  candidateSpots :: "site list"

record resultSummary =
  res_totalBagans :: nat
  res_bagansToMove :: nat
  res_bagansToStay :: int
  worthMoving :: bool

text \<open>\<open>roi\<close> is the text \<open>toFixed(1)\<close> prints for the quotient.\<close>

record estimatedTotals =
  est_totalDistance :: real
  est_totalTime :: int
  est_totalFuelCost :: int
  est_totalExpectedProfit :: int
  est_netProfit :: int
  est_roi :: js_number

text \<open>The result object, without its \<open>timestamp\<close> (the clock is no input of the model).\<close>

record optimizationResult =
  res_summary :: resultSummary
  recommendations :: "recommended list"
  optimizedRoute :: "routePlan option"
  res_estimatedTotals :: "estimatedTotals option"

text \<open>\<open>recommendations.filter(r => r.recommendation.action === 'move')\<close>.\<close>

definition moveItems :: "recommended list \<Rightarrow> moveItem list" where
  "moveItems recs =
     List.map_filter
       (\<lambda>r. case recommendation r of
               Move spot an \<Rightarrow>
                 Some \<lparr> item_bagan = bagan r, item_targetSpot = spot, item_analysis = an \<rparr>
             | Stay why cur \<Rightarrow> None)
       recs"

text \<open>
  \<open>optimizedRoute ? {...} : null\<close>. Each entry reads \<open>optimizedRoute.summary.X\<close>; on a
  plan without \<open>summary\<close> that is a property read on \<open>undefined\<close>, a TypeError.
\<close>

definition estimateTotals :: "routePlan option \<Rightarrow> error + estimatedTotals option" where
  "estimateTotals route =
     (case route of
        None \<Rightarrow> Inr None
      | Some plan \<Rightarrow>
         (case plan_summary plan of
            None \<Rightarrow> Inl TypeError
          | Some s \<Rightarrow>
              Inr (Some
                \<lparr> est_totalDistance = totalDistance s,
                  est_totalTime = totalTime s,
                  est_totalFuelCost = totalFuelCost s,
                  est_totalExpectedProfit = totalExpectedProfit s,
                  est_netProfit = totalExpectedProfit s - totalFuelCost s,
                  est_roi =
                    js_toFixed1
                      (js_times
                         (js_divide (real_of_int (totalExpectedProfit s - totalFuelCost s))
                            (real_of_int (totalFuelCost s)))
                         100) \<rparr>)))"

definition optimizeBaganOperations :: "config \<Rightarrow> input \<Rightarrow> error + optimizationResult" where
  "optimizeBaganOperations cfg inp =
     (let recs = findBestSpots cfg (currentBagans inp) (candidateSpots inp);
          bagansToMove = moveItems recs
      in case (if length bagansToMove > 0
               then optimizeRoute cfg (kapalPosition inp) bagansToMove
               else Inr None) of
           Inl e \<Rightarrow> Inl e
         | Inr route \<Rightarrow>
            (case estimateTotals route of
               Inl e \<Rightarrow> Inl e
             | Inr totals \<Rightarrow>
                 Inr \<lparr> res_summary =
                         \<lparr> res_totalBagans = length (currentBagans inp),
                           res_bagansToMove = length bagansToMove,
                           res_bagansToStay =
                             int (length (currentBagans inp)) - int (length bagansToMove),
                           worthMoving = (length bagansToMove > 0) \<rparr>,
                       recommendations = recs,
                       optimizedRoute = route,
                       res_estimatedTotals = totals \<rparr>))"

section \<open>zoneService: moon phase\<close>

record moonPhase =
  illumination :: int
  phase :: string
  quality :: string

text \<open>
  The local variable \<open>phase\<close> of \<open>getMoonPhase\<close>, from the year, month (1 to 12) and
  day that the \<open>Date\<close> getters return. No step of the function's \<open>try\<close> block can
  throw, so its \<open>catch\<close> branch has no counterpart here.
\<close>

definition moonFraction :: "int \<Rightarrow> int \<Rightarrow> int \<Rightarrow> real" where
  "moonFraction year month day =
     (let jd = 367 * real_of_int year
               - real_of_int \<lfloor>(7 * (real_of_int year
                                       + real_of_int \<lfloor>(real_of_int month + 9) / 12\<rfloor>)) / 4\<rfloor>
               + real_of_int \<lfloor>(275 * real_of_int month) / 9\<rfloor>
               + real_of_int day + 1721013.5;
          daysSinceNew = jd - 2451549.5;
          newMoons = daysSinceNew / 29.53
      in newMoons - real_of_int \<lfloor>newMoons\<rfloor>)"

definition getMoonPhase :: "int \<Rightarrow> int \<Rightarrow> int \<Rightarrow> moonPhase" where
  "getMoonPhase year month day =
     (let illum = Math_round (moonFraction year month day * 100);
          phaseName =
            (if real_of_int illum < 6.25 then ''New Moon''
             else if real_of_int illum < 18.75 then ''Waxing Crescent''
             else if real_of_int illum < 31.25 then ''First Quarter''
             else if real_of_int illum < 43.75 then ''Waxing Gibbous''
             else if real_of_int illum < 56.25 then ''Full Moon''
             else if real_of_int illum < 68.75 then ''Waning Gibbous''
             else if real_of_int illum < 81.25 then ''Last Quarter''
             else ''Waning Crescent'')
      in \<lparr> illumination = illum, phase = phaseName,
           quality = (if illum < 30 then ''excellent''
                      else if illum < 60 then ''good'' else ''poor'') \<rparr>)"

section \<open>zoneService: zone score\<close>

text \<open>
  The argument of \<open>calculateZoneScore\<close>. A factor is \<open>None\<close> when its object is absent
  (falsy), and \<open>Some v\<close> when it is there, \<open>v\<close> being the number the function reads from it:
  \<open>chlorophyll.value\<close>, \<open>sst.value\<close>, \<open>moon.illumination\<close>, \<open>waveHeight.value\<close>,
  \<open>wind.speed.value\<close>.
\<close>

record readings =
  chlorophyll :: "real option"
  sst :: "real option"
  moon :: "real option"
  waveHeight :: "real option"
  wind :: "real option"

text \<open>An entry \<open>{score, max, rating}\<close> of the breakdown.\<close>

record factorScore =
  points :: int
  max_points :: int
  rating :: string

record breakdown =
  for_chlorophyll :: "factorScore option"
  for_sst :: "factorScore option"
  for_moon :: "factorScore option"
  for_wave :: "factorScore option"
  for_wind :: "factorScore option"

record zoneScore =
  final_score :: int
  score_breakdown :: breakdown
  maxScore :: int
  actualScore :: int

text \<open>
  The five \<open>if (data.X) { ... }\<close> blocks: the breakdown entry each writes, whose \<open>score\<close>
  is what the block adds to the running \<open>score\<close>.
\<close>

definition chlorophyllBlock :: "real option \<Rightarrow> factorScore option" where
  "chlorophyllBlock r =
     (case r of
        None \<Rightarrow> None
      | Some chl \<Rightarrow>
          Some (if chl > 0.5 then \<lparr> points = 30, max_points = 30, rating = ''Excellent'' \<rparr>
                else if chl > 0.3 then \<lparr> points = 20, max_points = 30, rating = ''Good'' \<rparr>
                else if chl > 0.1 then \<lparr> points = 10, max_points = 30, rating = ''Fair'' \<rparr>
                else \<lparr> points = 0, max_points = 30, rating = ''Poor'' \<rparr>))"

definition sstBlock :: "real option \<Rightarrow> factorScore option" where
  "sstBlock r =
     (case r of
        None \<Rightarrow> None
      | Some temp \<Rightarrow>
          Some (if temp \<ge> 27 \<and> temp \<le> 30
                then \<lparr> points = 25, max_points = 25, rating = ''Optimal'' \<rparr>
                else if temp \<ge> 25 \<and> temp \<le> 32
                then \<lparr> points = 15, max_points = 25, rating = ''Good'' \<rparr>
                else if temp \<ge> 23 \<and> temp \<le> 34
                then \<lparr> points = 5, max_points = 25, rating = ''Fair'' \<rparr>
                else \<lparr> points = 0, max_points = 25, rating = ''Poor'' \<rparr>))"

definition moonBlock :: "real option \<Rightarrow> factorScore option" where
  "moonBlock r =
     (case r of
        None \<Rightarrow> None
      | Some illum \<Rightarrow>
          Some (if illum < 30 then \<lparr> points = 20, max_points = 20, rating = ''Excellent'' \<rparr>
                else if illum < 50 then \<lparr> points = 15, max_points = 20, rating = ''Good'' \<rparr>
                else if illum < 70 then \<lparr> points = 10, max_points = 20, rating = ''Fair'' \<rparr>
                else \<lparr> points = 5, max_points = 20, rating = ''Poor'' \<rparr>))"

definition waveBlock :: "real option \<Rightarrow> factorScore option" where
  "waveBlock r =
     (case r of
        None \<Rightarrow> None
      | Some wave \<Rightarrow>
          Some (if wave < 1.0 then \<lparr> points = 15, max_points = 15, rating = ''Calm'' \<rparr>
                else if wave < 1.5 then \<lparr> points = 10, max_points = 15, rating = ''Moderate'' \<rparr>
                else if wave < 2.0 then \<lparr> points = 5, max_points = 15, rating = ''Choppy'' \<rparr>
                else \<lparr> points = 0, max_points = 15, rating = ''Rough'' \<rparr>))"

definition windBlock :: "real option \<Rightarrow> factorScore option" where
  "windBlock r =
     (case r of
        None \<Rightarrow> None
      | Some w \<Rightarrow>
          Some (if w < 5 then \<lparr> points = 10, max_points = 10, rating = ''Calm'' \<rparr>
                else if w < 7 then \<lparr> points = 7, max_points = 10, rating = ''Light'' \<rparr>
                else if w < 10 then \<lparr> points = 4, max_points = 10, rating = ''Moderate'' \<rparr>
                else \<lparr> points = 0, max_points = 10, rating = ''Strong'' \<rparr>))"

definition earned :: "factorScore option \<Rightarrow> int" where
  "earned e = (case e of None \<Rightarrow> 0 | Some f \<Rightarrow> points f)"

text \<open>
  \<open>maxScore += N\<close> stands before each \<open>if (data.X)\<close>, outside it; the additions to
  \<open>score\<close> stand inside.
\<close>

definition calculateZoneScore :: "readings \<Rightarrow> zoneScore" where
  "calculateZoneScore d =
     (let score0 = 0; maxScore0 = 0;
          maxScore1 = maxScore0 + 30;
          b1 = chlorophyllBlock (chlorophyll d);
          score1 = score0 + earned b1;
          maxScore2 = maxScore1 + 25;
          b2 = sstBlock (sst d);
          score2 = score1 + earned b2;
          maxScore3 = maxScore2 + 20;
          b3 = moonBlock (moon d);
          score3 = score2 + earned b3;
          maxScore4 = maxScore3 + 15;
          b4 = waveBlock (waveHeight d);
          score4 = score3 + earned b4;
          maxScore5 = maxScore4 + 10;
          b5 = windBlock (wind d);
          score5 = score4 + earned b5;
          finalScore = Math_round ((real_of_int score5 / real_of_int maxScore5) * 100)
      in \<lparr> final_score = finalScore,
           score_breakdown = \<lparr> for_chlorophyll = b1, for_sst = b2, for_moon = b3,
                               for_wave = b4, for_wind = b5 \<rparr>,
           maxScore = maxScore5,
           actualScore = score5 \<rparr>)"

text \<open>
  The maximum as the specification describes it, not as the source computes it: the sum
  of the maximum points of the factors that are present.
\<close>

definition presentMax :: "readings \<Rightarrow> int" where
  "presentMax d =
     (if chlorophyll d = None then 0 else 30) + (if sst d = None then 0 else 25)
     + (if moon d = None then 0 else 20) + (if waveHeight d = None then 0 else 15)
     + (if wind d = None then 0 else 10)"

section \<open>zoneService: fetching the readings\<close>

text \<open>A date, as the year, month and day the \<open>Date\<close> getters return for it.\<close>

record date =
  year :: int
  month :: int
  day :: int

text \<open>
  The outside world of the fetchers: what \<open>fetchWithRetry\<close> delivers for the request each
  of them sends. \<open>Inl e\<close>: the request fails after its retries and the promise rejects
  with \<open>e\<close>. \<open>Inr None\<close>: the response lacks the part the fetcher tests for
  (\<open>data.table.rows\<close>, \<open>data.current\<close>, \<open>data.wind\<close>). \<open>Inr (Some v)\<close>: the response
  holds the number \<open>v\<close> the fetcher reads (\<open>rows[0][3]\<close>, \<open>current.wave_height\<close>,
  \<open>wind.speed\<close>). \<open>openWeatherKey\<close> says whether \<open>CONFIG.apis.openWeather\<close> is set.
\<close>

record network =
  chlorophyllData :: "real \<Rightarrow> real \<Rightarrow> date \<Rightarrow> error + real option"
  sstData :: "real \<Rightarrow> real \<Rightarrow> date \<Rightarrow> error + real option"
  marineData :: "real \<Rightarrow> real \<Rightarrow> error + real option"
  windData :: "real \<Rightarrow> real \<Rightarrow> error + real option"
  openWeatherKey :: bool

text \<open>
  What a fetcher returns, reduced to the number that \<open>calculateZoneScore\<close> reads
  (\<open>value\<close>, \<open>waveHeight.value\<close>, \<open>speed.value\<close>) and the \<open>source\<close> tag.
\<close>

record reading =
  reading_value :: real
  source :: string

text \<open>
  Each fetcher is an \<open>async\<close> function whose whole body is a \<open>try\<close> with a \<open>catch\<close>. Its
  promise is a value of \<open>error + reading\<close>; the inner \<open>case\<close> is the \<open>try\<close> block, the outer
  one the \<open>catch\<close>, which returns the estimated reading.
\<close>

definition getChlorophyllData :: "network \<Rightarrow> real \<Rightarrow> real \<Rightarrow> date \<Rightarrow> error + reading" where
  "getChlorophyllData net la lo dt =
     (case (case chlorophyllData net la lo dt of
              Inl e \<Rightarrow> Inl e
            | Inr None \<Rightarrow> Inl (Error ''No chlorophyll data available'')
            | Inr (Some chl) \<Rightarrow> Inr \<lparr> reading_value = chl, source = ''NASA VIIRS'' \<rparr>) of
        Inr r \<Rightarrow> Inr r
      | Inl e \<Rightarrow> Inr \<lparr> reading_value = 0.35, source = ''Estimated'' \<rparr>)"

definition getSST :: "network \<Rightarrow> real \<Rightarrow> real \<Rightarrow> date \<Rightarrow> error + reading" where
  "getSST net la lo dt =
     (case (case sstData net la lo dt of
              Inl e \<Rightarrow> Inl e
            | Inr None \<Rightarrow> Inl (Error ''No SST data available'')
            | Inr (Some sstKelvin) \<Rightarrow>
                (let sstCelsius = sstKelvin - 273.15
                 in Inr \<lparr> reading_value = toFixed 2 sstCelsius, source = ''NOAA MUR SST'' \<rparr>)) of
        Inr r \<Rightarrow> Inr r
      | Inl e \<Rightarrow> Inr \<lparr> reading_value = 28.5, source = ''Estimated'' \<rparr>)"

text \<open>
  \<open>parseFloat(data.current.wave_height) || 0\<close> and \<open>parseFloat(data.wind.speed) || 0\<close>
  are the number itself: the \<open>|| 0\<close> leaves every number as it is, and a field that is
  missing or not a number reads as 0, which is \<open>Some 0\<close> here.
\<close>

definition getMarineWeather :: "network \<Rightarrow> real \<Rightarrow> real \<Rightarrow> error + reading" where
  "getMarineWeather net la lo =
     (case (case marineData net la lo of
              Inl e \<Rightarrow> Inl e
            | Inr None \<Rightarrow> Inl (Error ''No marine weather data available'')
            | Inr (Some w) \<Rightarrow> Inr \<lparr> reading_value = w, source = ''Open-Meteo Marine'' \<rparr>) of
        Inr r \<Rightarrow> Inr r
      | Inl e \<Rightarrow> Inr \<lparr> reading_value = 0.8, source = ''Estimated'' \<rparr>)"

definition getWindData :: "network \<Rightarrow> real \<Rightarrow> real \<Rightarrow> error + reading" where
  "getWindData net la lo =
     (case (if \<not> openWeatherKey net then Inl (Error ''OpenWeather API key not configured'')
            else
              (case windData net la lo of
                 Inl e \<Rightarrow> Inl e
               | Inr None \<Rightarrow> Inl (Error ''No wind data available'')
               | Inr (Some w) \<Rightarrow> Inr \<lparr> reading_value = w, source = ''OpenWeather'' \<rparr>)) of
        Inr r \<Rightarrow> Inr r
      | Inl e \<Rightarrow> Inr \<lparr> reading_value = 4.5, source = ''Estimated'' \<rparr>)"

section \<open>optimize routes: scanning the area for candidate spots\<close>

text \<open>
  The \<open>try\<close> block of \<open>estimateScoreForLocation\<close>: \<open>Promise.all\<close> over the four fetchers
  and the moon phase rejects when one of them rejects; otherwise the score of the five
  readings is returned.
\<close>

definition tryScore :: "network \<Rightarrow> real \<Rightarrow> real \<Rightarrow> date \<Rightarrow> error + int" where
  "tryScore net la lo dt =
     (case getChlorophyllData net la lo dt of
        Inl e \<Rightarrow> Inl e
      | Inr chl \<Rightarrow>
     (case getSST net la lo dt of
        Inl e \<Rightarrow> Inl e
      | Inr temp \<Rightarrow>
     (case getMarineWeather net la lo of
        Inl e \<Rightarrow> Inl e
      | Inr marine \<Rightarrow>
     (case getWindData net la lo of
        Inl e \<Rightarrow> Inl e
      | Inr wnd \<Rightarrow>
          Inr (final_score (calculateZoneScore
            \<lparr> chlorophyll = Some (reading_value chl),
              sst = Some (reading_value temp),
              moon = Some (real_of_int
                       (illumination (getMoonPhase (year dt) (month dt) (day dt)))),
              waveHeight = Some (reading_value marine),
              wind = Some (reading_value wnd) \<rparr>))))))"

text \<open>With its \<open>catch\<close>: \<open>return 75\<close>.\<close>

definition estimateScoreForLocation :: "network \<Rightarrow> real \<Rightarrow> real \<Rightarrow> date \<Rightarrow> int" where
  "estimateScoreForLocation net la lo dt =
     (case tryScore net la lo dt of Inl e \<Rightarrow> 75 | Inr sc \<Rightarrow> sc)"

text \<open>A natural number in decimal, as a template literal prints it.\<close>

fun showNat :: "nat \<Rightarrow> string" where
  "showNat n =
     (if n < 10 then [''0123456789'' ! n]
      else showNat (n div 10) @ [''0123456789'' ! (n mod 10)])"

declare showNat.simps [simp del]

record scan =
  spots :: "site list"
  spotId :: nat

text \<open>The body of the two nested loops, for one grid point.\<close>

definition visitPoint ::
  "network \<Rightarrow> place \<Rightarrow> site list \<Rightarrow> real \<Rightarrow> date \<Rightarrow> real \<Rightarrow> real
     \<Rightarrow> scan \<Rightarrow> int \<times> int \<Rightarrow> scan" where
  "visitPoint net center bagans radiusKm dt degPerStepLat degPerStepLng st p =
     (let la = lat center + real_of_int (fst p) * degPerStepLat;
          lo = lng center + real_of_int (snd p) * degPerStepLng;
          d = calculateDistance (lat center) (lng center) la lo
      in if d > radiusKm then st
         else if list_ex (\<lambda>b. calculateDistance (lat b) (lng b) la lo < 0.3) bagans then st
         else
           (let sc = estimateScoreForLocation net la lo dt
            in if sc \<ge> 70
               then \<lparr> spots = spots st @
                        [\<lparr> lat = toFixed 4 la, lng = toFixed 4 lo,
                           id' = ''SPOT_'' @ showNat (spotId st),
                           name = ''Candidate '' @ showNat (spotId st + 1),
                           score = real_of_int sc,
                           estimatedCatch = Some (estimateCatch (real_of_int sc)) \<rparr>],
                      spotId = spotId st + 1 \<rparr>
               else st))"

text \<open>
  The grid in the order of the loops, \<open>latStep\<close> outside and \<open>lngStep\<close> inside; then the
  stable sort by descending score and the first twenty.
\<close>

definition scanAreaForSpots ::
  "network \<Rightarrow> place \<Rightarrow> site list \<Rightarrow> real \<Rightarrow> date \<Rightarrow> site list" where
  "scanAreaForSpots net center bagans radiusKm dt =
     (let gridSize = 0.5;
          stepsPerSide = \<lceil>radiusKm / gridSize\<rceil>;
          kmPerDegreeLat = 111;
          kmPerDegreeLng = 111 * cos (lat center * pi / 180);
          degPerStepLat = gridSize / kmPerDegreeLat;
          degPerStepLng = gridSize / kmPerDegreeLng;
          grid = concat (map (\<lambda>latStep. map (\<lambda>lngStep. (latStep, lngStep))
                                           [- stepsPerSide..stepsPerSide])
                             [- stepsPerSide..stepsPerSide]);
          found = foldl (visitPoint net center bagans radiusKm dt degPerStepLat degPerStepLng)
                    \<lparr> spots = [], spotId = 1 \<rparr> grid
      in take 20 (sort_key (\<lambda>s. - score s) (spots found)))"

section \<open>Terms of the properties\<close>

text \<open>
  The local variable \<open>netProfit\<close> of \<open>shouldMoveBagan\<close>, the expected extra revenue
  less the fuel cost, before \<open>Math.round\<close> is applied for the analysis.
\<close>

definition exactNetProfit :: "config \<Rightarrow> site \<Rightarrow> site \<Rightarrow> real" where
  "exactNetProfit cfg b s =
     real_of_int (avg (estimateCatch (score s)) - avg (estimateCatch (score b)))
       * catchPricePerKg cfg
     - calculateFuelCost cfg (calculateDistance (lat b) (lng b) (lat s) (lng s))"

text \<open>
  The test of the loop in \<open>findBestSpots\<close> against the initial \<open>maxProfit\<close>, and the
  number it compares: \<open>decision.analysis.netProfit\<close>, the rounded net profit.
\<close>

definition qualifies :: "config \<Rightarrow> site \<Rightarrow> site \<Rightarrow> bool" where
  "qualifies cfg b s =
     (case shouldMoveBagan cfg b s of
        Rejected r \<Rightarrow> False
      | Analysed move a \<Rightarrow> move \<and> real_of_int (netProfit a) > minProfitThreshold cfg)"

definition shownProfit :: "config \<Rightarrow> site \<Rightarrow> site \<Rightarrow> int" where
  "shownProfit cfg b s =
     (case shouldMoveBagan cfg b s of Rejected r \<Rightarrow> 0 | Analysed move a \<Rightarrow> netProfit a)"

text \<open>
  The state of the search for the best spot after the spots \<open>cands\<close>: nothing chosen and
  no spot passing the test, or the chosen spot passes it, every spot before it that passes
  has a strictly smaller rounded net profit and no spot after it has a larger one.
\<close>

definition picked :: "config \<Rightarrow> site \<Rightarrow> site list \<Rightarrow> search \<Rightarrow> bool" where
  "picked cfg b cands st \<longleftrightarrow>
     (bestSpot st = None \<and> bestAnalysis st = None \<and> maxProfit st = minProfitThreshold cfg \<and>
        (\<forall>q \<in> set cands. \<not> qualifies cfg b q)) \<or>
     (\<exists>s pre post.
        cands = pre @ s # post \<and> bestSpot st = Some s \<and>
        bestAnalysis st = decision_analysis (shouldMoveBagan cfg b s) \<and>
        maxProfit st = real_of_int (shownProfit cfg b s) \<and> qualifies cfg b s \<and>
        (\<forall>q \<in> set pre. qualifies cfg b q \<longrightarrow> shownProfit cfg b q < shownProfit cfg b s) \<and>
        (\<forall>q \<in> set post. qualifies cfg b q \<longrightarrow> shownProfit cfg b q \<le> shownProfit cfg b s))"


section \<open>Inputs used in the examples\<close>

text \<open>
  A bundle with one factor: a chlorophyll reading of 0.6 and nothing else.
\<close>

definition onlyChlorophyll :: readings where
  "onlyChlorophyll =
     \<lparr> chlorophyll = Some 0.6, sst = None, moon = None, waveHeight = None, wind = None \<rparr>"

text \<open>
  A bagan at the position of the example in the source, and a spot on the same meridian
  0.09 degrees of latitude (about 10 km) to the south.
\<close>

definition baganB1 :: site where
  "baganB1 = \<lparr> lat = - 6.75, lng = 105.52, id' = ''B1'', name = ''Bagan 1'', score = 75,
     estimatedCatch = None \<rparr>"

definition farSpot :: site where
  "farSpot = \<lparr> lat = - 6.84, lng = 105.52, id' = ''S9'', name = ''Spot far'', score = 100,
     estimatedCatch = None \<rparr>"

text \<open>
  The vessel at the position of the example in the source; two dates, 11 January 2024
  (illumination 2) and 18 June 2024 (illumination 40); a network on which every request
  fails; and one on which every request delivers a poor reading (chlorophyll 0.05, 20
  degrees Celsius, waves of 3 m, wind of 12 m/s).
\<close>

definition kapal :: place where
  "kapal = \<lparr> lat = - 6.75, lng = 105.52 \<rparr>"

definition january11 :: date where
  "january11 = \<lparr> year = 2024, month = 1, day = 11 \<rparr>"

definition june18 :: date where
  "june18 = \<lparr> year = 2024, month = 6, day = 18 \<rparr>"

definition offline :: network where
  "offline =
     \<lparr> chlorophyllData = (\<lambda>la lo dt. Inl (Error ''timeout of 10000ms exceeded'')),
       sstData = (\<lambda>la lo dt. Inl (Error ''timeout of 10000ms exceeded'')),
       marineData = (\<lambda>la lo. Inl (Error ''timeout of 10000ms exceeded'')),
       windData = (\<lambda>la lo. Inl (Error ''timeout of 10000ms exceeded'')),
       openWeatherKey = True \<rparr>"

definition murky :: network where
  "murky =
     \<lparr> chlorophyllData = (\<lambda>la lo dt. Inr (Some 0.05)),
       sstData = (\<lambda>la lo dt. Inr (Some 293.15)),
       marineData = (\<lambda>la lo. Inr (Some 3)),
       windData = (\<lambda>la lo. Inr (Some 12)),
       openWeatherKey = True \<rparr>"

text \<open>
  A spot 0.002 degrees north of the bagan B1, a second bagan 0.01 degrees south of B1 with
  a spot 0.002 degrees further south, all on one meridian, and the two moves as
  \<open>findBestSpots\<close> recommends them.
\<close>

definition nearSpot :: site where
  "nearSpot = \<lparr> lat = - 6.748, lng = 105.52, id' = ''S1'', name = ''Spot A'', score = 89,
     estimatedCatch = None \<rparr>"



definition itemA :: moveItem where
  "itemA = \<lparr> item_bagan = baganB1, item_targetSpot = nearSpot,
      item_analysis = decision_analysis (shouldMoveBagan CONFIG baganB1 nearSpot) \<rparr>"


text \<open>
  Two spots of score 89: one a hundred-millionth of a degree (about a millimetre) north of
  the bagan B1, one at the position of B1 itself.
\<close>

definition closeSpot :: site where
  "closeSpot = \<lparr> lat = - 6.74999999, lng = 105.52, id' = ''S3'', name = ''Spot C'', score = 89,
     estimatedCatch = None \<rparr>"

definition sameSpot :: site where
  "sameSpot = \<lparr> lat = - 6.75, lng = 105.52, id' = ''S4'', name = ''Spot D'', score = 89,
     estimatedCatch = None \<rparr>"

text \<open>
  A third bagan at the position of B1; a request with one bagan and one spot worth the
  move; and a request in which the vessel, two bagans and the one candidate spot are all at
  the same position.
\<close>

definition baganB3 :: site where
  "baganB3 = \<lparr> lat = - 6.75, lng = 105.52, id' = ''B3'', name = ''Bagan 3'', score = 68,
     estimatedCatch = None \<rparr>"

definition singleMove :: input where
  "singleMove = \<lparr> kapalPosition = kapal, currentBagans = [baganB1], candidateSpots = [nearSpot] \<rparr>"

definition colocated :: input where
  "colocated = \<lparr> kapalPosition = kapal, currentBagans = [baganB1, baganB3],
     candidateSpots = [sameSpot] \<rparr>"

section \<open>Properties of the catch estimate\<close>

text \<open>
  C6, as the specification states it, fails: at score 3 the minimum is 2 and the maximum
  is 3, whose mean 2.5 rounds to 3, while \<open>estimateCatch\<close> returns the average 2.
\<close>

theorem estimateCatch_avg_counterexample:
  "min' (estimateCatch 3) = 2 \<and> max' (estimateCatch 3) = 3 \<and> avg (estimateCatch 3) = 2 \<and>
   avg (estimateCatch 3) \<noteq>
     Math_round ((real_of_int (min' (estimateCatch 3)) + real_of_int (max' (estimateCatch 3))) / 2)"
  by (simp add: estimateCatch_def Math_round_def)

text \<open>
  C6, amended: for every score, \<open>estimateCatch\<close> returns \<open>min = round(score * 0.6)\<close>,
  \<open>max = round(score * 0.9)\<close> and \<open>avg = round((score * 0.6 + score * 0.9) / 2)\<close>: the
  average is computed from the two products before they are rounded.
\<close>

theorem estimateCatch_unrounded_avg:
  "min' (estimateCatch sc) = Math_round (sc * 0.6) \<and>
   max' (estimateCatch sc) = Math_round (sc * 0.9) \<and>
   avg (estimateCatch sc) = Math_round ((sc * 0.6 + sc * 0.9) / 2)"
  by (simp add: estimateCatch_def)

section \<open>Properties of the moon phase\<close>

lemma moonFraction_range: "0 \<le> moonFraction y m d \<and> moonFraction y m d < 1"
  unfolding moonFraction_def Let_def by linarith

lemma moonFraction_2024_06_06: "moonFraction 2024 6 6 = 2947 / 2953"
  by (simp add: moonFraction_def)

text \<open>
  C7, as the specification states it, fails: on 6 June 2024 the phase is 2947/2953, about
  0.998, and the illumination is 100.
\<close>

theorem getMoonPhase_illumination_counterexample:
  "illumination (getMoonPhase 2024 6 6) = 100 \<and> \<not> illumination (getMoonPhase 2024 6 6) < 100"
  by (simp add: getMoonPhase_def Let_def moonFraction_2024_06_06 Math_round_def)

text \<open>
  C7, amended: for every date the phase lies in \<open>[0, 1)\<close>, the illumination is
  \<open>round(phase * 100)\<close>, and the illumination lies in the closed range \<open>[0, 100]\<close>.
\<close>

theorem getMoonPhase_illumination_range:
  "0 \<le> moonFraction y m d \<and> moonFraction y m d < 1 \<and>
   illumination (getMoonPhase y m d) = Math_round (moonFraction y m d * 100) \<and>
   0 \<le> illumination (getMoonPhase y m d) \<and> illumination (getMoonPhase y m d) \<le> 100"
proof -
  have r: "0 \<le> moonFraction y m d" "moonFraction y m d < 1"
    using moonFraction_range by auto
  have i: "illumination (getMoonPhase y m d) = Math_round (moonFraction y m d * 100)"
    by (simp add: getMoonPhase_def Let_def)
  have "0 \<le> Math_round (moonFraction y m d * 100)"
    unfolding Math_round_def using r by simp
  moreover have "Math_round (moonFraction y m d * 100) \<le> 100"
    unfolding Math_round_def using r by (simp add: floor_le_iff)
  ultimately show ?thesis using r i by simp
qed

section \<open>Properties of the zone score\<close>

lemma Math_round_of_int: "Math_round (real_of_int k) = k"
  unfolding Math_round_def by (rule floor_unique) simp_all

lemma earned_chl: "0 \<le> earned (chlorophyllBlock r) \<and> earned (chlorophyllBlock r) \<le> 30"
  by (simp add: earned_def chlorophyllBlock_def split: option.splits)
lemma earned_sst: "0 \<le> earned (sstBlock r) \<and> earned (sstBlock r) \<le> 25"
  by (simp add: earned_def sstBlock_def split: option.splits)
lemma earned_moon: "0 \<le> earned (moonBlock r) \<and> earned (moonBlock r) \<le> 20"
  by (simp add: earned_def moonBlock_def split: option.splits)
lemma earned_wave: "0 \<le> earned (waveBlock r) \<and> earned (waveBlock r) \<le> 15"
  by (simp add: earned_def waveBlock_def split: option.splits)
lemma earned_wind: "0 \<le> earned (windBlock r) \<and> earned (windBlock r) \<le> 10"
  by (simp add: earned_def windBlock_def split: option.splits)

lemma maxScore_100: "maxScore (calculateZoneScore d) = 100"
  by (simp add: calculateZoneScore_def Let_def)

lemma actualScore_sum: "actualScore (calculateZoneScore d) =
   earned (chlorophyllBlock (chlorophyll d)) + earned (sstBlock (sst d)) + earned (moonBlock (moon d))
   + earned (waveBlock (waveHeight d)) + earned (windBlock (wind d))"
  by (simp add: calculateZoneScore_def Let_def)

lemma final_actual: "final_score (calculateZoneScore d) = actualScore (calculateZoneScore d)"
proof -
  have "final_score (calculateZoneScore d) =
      Math_round (real_of_int (actualScore (calculateZoneScore d)) / 100 * 100)"
    by (simp add: calculateZoneScore_def Let_def)
  also have "\<dots> = Math_round (real_of_int (actualScore (calculateZoneScore d)))" by simp
  finally show ?thesis by (simp only: Math_round_of_int)
qed

text \<open>
  C1, as the specification states it, fails: for the bundle with only a chlorophyll reading
  of 0.6 the present factors have 30 points to give and all 30 are earned, so the stated
  total is 100; \<open>calculateZoneScore\<close> counts the four missing factors in \<open>maxScore\<close>,
  which is 100, and returns the total 30.
\<close>

theorem calculateZoneScore_renormalize_counterexample:
  "presentMax onlyChlorophyll = 30 \<and>
   maxScore (calculateZoneScore onlyChlorophyll) = 100 \<and>
   actualScore (calculateZoneScore onlyChlorophyll) = 30 \<and>
   final_score (calculateZoneScore onlyChlorophyll) = 30 \<and>
   final_score (calculateZoneScore onlyChlorophyll) \<noteq>
     Math_round (100 * real_of_int (actualScore (calculateZoneScore onlyChlorophyll))
                  / real_of_int (presentMax onlyChlorophyll))"
  by (simp add: onlyChlorophyll_def presentMax_def calculateZoneScore_def chlorophyllBlock_def
        sstBlock_def moonBlock_def waveBlock_def windBlock_def earned_def Math_round_def)

text \<open>
  C1, amended: for every bundle, complete or partial, \<open>maxScore\<close> is 100; a missing factor
  adds nothing to the accumulated score and is counted in \<open>maxScore\<close> all the same; the
  total is \<open>round(100 * earned / 100)\<close>, the earned points themselves, and lies in
  \<open>[0, 100]\<close>.
\<close>

theorem calculateZoneScore_fixed_maximum:
  "maxScore (calculateZoneScore d) = 100 \<and>
   actualScore (calculateZoneScore d) =
     earned (chlorophyllBlock (chlorophyll d)) + earned (sstBlock (sst d))
     + earned (moonBlock (moon d)) + earned (waveBlock (waveHeight d))
     + earned (windBlock (wind d)) \<and>
   earned (chlorophyllBlock None) = 0 \<and> earned (sstBlock None) = 0 \<and>
   earned (moonBlock None) = 0 \<and> earned (waveBlock None) = 0 \<and>
   earned (windBlock None) = 0 \<and>
   final_score (calculateZoneScore d) =
     Math_round (100 * real_of_int (actualScore (calculateZoneScore d)) / 100) \<and>
   0 \<le> final_score (calculateZoneScore d) \<and> final_score (calculateZoneScore d) \<le> 100"
proof -
  have z: "earned (chlorophyllBlock None) = 0" "earned (sstBlock None) = 0" "earned (moonBlock None) = 0"
     "earned (waveBlock None) = 0" "earned (windBlock None) = 0"
    by (simp_all add: earned_def chlorophyllBlock_def sstBlock_def moonBlock_def waveBlock_def windBlock_def)
  have f: "final_score (calculateZoneScore d) = actualScore (calculateZoneScore d)" by (rule final_actual)
  have r: "Math_round (100 * real_of_int (actualScore (calculateZoneScore d)) / 100) = actualScore (calculateZoneScore d)"
    using Math_round_of_int[of "actualScore (calculateZoneScore d)"] by simp
  have lo: "0 \<le> actualScore (calculateZoneScore d)"
    using earned_chl[of "chlorophyll d"] earned_sst[of "sst d"] earned_moon[of "moon d"]
      earned_wave[of "waveHeight d"] earned_wind[of "wind d"]
    unfolding actualScore_sum by linarith
  have hi: "actualScore (calculateZoneScore d) \<le> 100"
    using earned_chl[of "chlorophyll d"] earned_sst[of "sst d"] earned_moon[of "moon d"]
      earned_wave[of "waveHeight d"] earned_wind[of "wind d"]
    unfolding actualScore_sum by linarith
  show ?thesis using z f r lo hi maxScore_100 actualScore_sum by simp
qed

section \<open>Properties of the distance\<close>

text \<open>
  Along a meridian the haversine formula gives the arc: the Earth radius times the
  difference of the latitudes in radians.
\<close>

lemma calculateDistance_meridian: assumes "\<bar>la2 - la1\<bar> < 180"
  shows "calculateDistance la1 lo la2 lo = 6371 * \<bar>toRad (la2 - la1)\<bar>"
proof -
  define t where "t = toRad (la2 - la1)"
  have "\<bar>t\<bar> = \<bar>la2 - la1\<bar> * (pi / 180)" by (simp add: t_def toRad_def abs_mult)
  also have "\<dots> < 180 * (pi / 180)" using assms by (intro mult_strict_right_mono) simp_all
  finally have tb: "\<bar>t\<bar> < pi" by simp
  have c: "0 < cos (t / 2)" using tb by (intro cos_gt_zero_pi) (auto simp: abs_less_iff)
  have a: "sin (t/2) * sin (t/2) = (sin (t/2))\<^sup>2" by (simp add: power2_eq_square)
  have s1: "sqrt ((sin (t/2))\<^sup>2) = \<bar>sin (t/2)\<bar>" by simp
  have "1 - (sin (t/2))\<^sup>2 = (cos (t/2))\<^sup>2" by (simp add: cos_squared_eq)
  then have s2: "sqrt (1 - (sin (t/2))\<^sup>2) = cos (t/2)" using c by simp
  have at: "arctan (\<bar>sin (t/2)\<bar> / cos (t/2)) = \<bar>t\<bar> / 2"
  proof (cases "0 \<le> t")
    case True
    then have "0 \<le> sin (t/2)" using tb by (intro sin_ge_zero) auto
    then have "\<bar>sin (t/2)\<bar> / cos (t/2) = tan (t/2)" by (simp add: tan_def)
    moreover have "arctan (tan (t/2)) = t/2" using tb True by (intro arctan_tan) auto
    ultimately show ?thesis using True by simp
  next
    case False
    then have "sin (t/2) \<le> 0" using tb sin_ge_zero[of "-(t/2)"] by auto
    then have "\<bar>sin (t/2)\<bar> / cos (t/2) = tan (-(t/2))" by (simp add: tan_def)
    moreover have "arctan (tan (-(t/2))) = -(t/2)" using tb False by (intro arctan_tan) auto
    ultimately show ?thesis using False by simp
  qed
  show ?thesis
    unfolding calculateDistance_def Let_def t_def[symmetric]
    using c at by (simp add: a s1 s2 Math_atan2_def toRad_def)
qed


lemma calculateDistance_same: "calculateDistance la lo la lo = 0"
  using calculateDistance_meridian[of la la lo] by (simp add: toRad_def)

lemma shouldMoveBagan_rejected:
  assumes "calculateDistance (lat b) (lng b) (lat s) (lng s) > maxTowDistance cfg"
  shows "shouldMoveBagan cfg b s =
     Rejected (TooFar (toFixed 1 (calculateDistance (lat b) (lng b) (lat s) (lng s))) (maxTowDistance cfg))"
  using assms by (simp add: shouldMoveBagan_def Let_def)

lemma far_distance: "calculateDistance (lat baganB1) (lng baganB1) (lat farSpot) (lng farSpot) > 5"
proof -
  have "calculateDistance (lat baganB1) (lng baganB1) (lat farSpot) (lng farSpot)
      = 6371 * \<bar>toRad (- 6.84 - (- 6.75))\<bar>"
    using calculateDistance_meridian[of "- 6.84" "- 6.75" "105.52"]
    by (simp add: baganB1_def farSpot_def)
  also have "\<dots> = 6371 * (0.09 * (pi / 180))" by (simp add: toRad_def abs_mult)
  finally show ?thesis using pi_ge_two by simp
qed

section \<open>Properties of the move decision\<close>

text \<open>
  C5: whenever the distance between the bagan and the spot exceeds
  \<open>CONFIG.maxTowDistance\<close>, \<open>shouldMoveBagan\<close> returns the rejecting object:
  \<open>shouldMove\<close> is false, the reason is the text built from the distance and the maximum,
  and there is no analysis (no cost or revenue is computed), whatever the scores are.
\<close>

theorem shouldMoveBagan_too_far:
  assumes "calculateDistance (lat b) (lng b) (lat s) (lng s) > maxTowDistance cfg"
  shows "shouldMoveBagan cfg b s =
           Rejected (TooFar (toFixed 1 (calculateDistance (lat b) (lng b) (lat s) (lng s)))
                       (maxTowDistance cfg))
         \<and> shouldMove (shouldMoveBagan cfg b s) = False
         \<and> decision_analysis (shouldMoveBagan cfg b s) = None"
  using shouldMoveBagan_rejected[OF assms] by simp

text \<open>
  C5 at the bagan B1 and the spot 10 km away, under the default configuration (maximum 5
  km), although the spot has the best score there is.
\<close>

theorem shouldMoveBagan_too_far_witness:
  "maxTowDistance CONFIG
     < calculateDistance (lat baganB1) (lng baganB1) (lat farSpot) (lng farSpot)
   \<and> shouldMove (shouldMoveBagan CONFIG baganB1 farSpot) = False
   \<and> decision_analysis (shouldMoveBagan CONFIG baganB1 farSpot) = None
   \<and> (\<exists>d. decision_reason (shouldMoveBagan CONFIG baganB1 farSpot) = Some (TooFar d 5))"
proof -
  have h: "maxTowDistance CONFIG
             < calculateDistance (lat baganB1) (lng baganB1) (lat farSpot) (lng farSpot)"
    using far_distance by (simp add: CONFIG_def)
  show ?thesis using h shouldMoveBagan_too_far[OF h] by (simp add: CONFIG_def)
qed

section \<open>Properties of the search for the best spot\<close>

lemma considerSpot_inv:
  "(bestAnalysis st = None \<longleftrightarrow> bestSpot st = None) \<Longrightarrow>
   (bestAnalysis (considerSpot cfg b st spot) = None \<longleftrightarrow> bestSpot (considerSpot cfg b st spot) = None)"
  by (simp add: considerSpot_def split: decision.splits)

lemma foldl_considerSpot_inv:
  "(bestAnalysis st = None \<longleftrightarrow> bestSpot st = None) \<Longrightarrow>
   (bestAnalysis (foldl (considerSpot cfg b) st cands) = None \<longleftrightarrow>
    bestSpot (foldl (considerSpot cfg b) st cands) = None)"
proof (induction cands arbitrary: st)
  case Nil then show ?case by simp
next
  case (Cons s cands)
  show ?case using Cons.IH[OF considerSpot_inv[OF Cons.prems]] by simp
qed

lemma searchSpots_inv: "bestAnalysis (searchSpots cfg b cands) = None \<longleftrightarrow> bestSpot (searchSpots cfg b cands) = None"
  unfolding searchSpots_def by (rule foldl_considerSpot_inv) simp

lemma recommend_stay: "recommendation (recommend cfg b cands) = Stay why cur \<Longrightarrow> why = ''No better spot found''"
  using searchSpots_inv[of cfg b cands]
  by (auto simp: recommend_def Let_def split: option.splits if_splits)

lemma recommend_not_unprofitable: "recommendation (recommend cfg b cands) \<noteq> Stay ''Not profitable enough'' cur"
proof
  assume "recommendation (recommend cfg b cands) = Stay ''Not profitable enough'' cur"
  from recommend_stay[OF this] show False by simp
qed

text \<open>
  C10: after the loop over the spots, \<open>bestAnalysis\<close> is non-null exactly when \<open>bestSpot\<close>
  is; so every recommendation to stay carries the reason \<open>No better spot found\<close>, and none
  carries \<open>Not profitable enough\<close>.
\<close>

theorem findBestSpots_stay_reason:
  "(bestAnalysis (searchSpots cfg b cands) \<noteq> None
      \<longleftrightarrow> bestSpot (searchSpots cfg b cands) \<noteq> None) \<and>
   (\<forall>r \<in> set (findBestSpots cfg bagans cands).
      (\<forall>why cur. recommendation r = Stay why cur \<longrightarrow> why = ''No better spot found'') \<and>
      (\<forall>cur. recommendation r \<noteq> Stay ''Not profitable enough'' cur))"
proof -
  have a: "bestAnalysis (searchSpots cfg b cands) \<noteq> None \<longleftrightarrow> bestSpot (searchSpots cfg b cands) \<noteq> None"
    using searchSpots_inv[of cfg b cands] by simp
  have b: "\<forall>r \<in> set (findBestSpots cfg bagans cands).
      (\<forall>why cur. recommendation r = Stay why cur \<longrightarrow> why = ''No better spot found'') \<and>
      (\<forall>cur. recommendation r \<noteq> Stay ''Not profitable enough'' cur)"
    unfolding findBestSpots_def using recommend_stay recommend_not_unprofitable by auto
  show ?thesis using a b by blast
qed

lemma search_far: "searchSpots CONFIG baganB1 [farSpot] = \<lparr> bestSpot = None, bestAnalysis = None, maxProfit = 50000 \<rparr>"
proof -
  have h: "maxTowDistance CONFIG < calculateDistance (lat baganB1) (lng baganB1) (lat farSpot) (lng farSpot)"
    using far_distance by (simp add: CONFIG_def)
  show ?thesis
    by (simp add: searchSpots_def considerSpot_def shouldMoveBagan_rejected[OF h]) (simp add: CONFIG_def)
qed

text \<open>
  C10 at the bagan B1 with the far spot as the only candidate: the bagan stays, both loop
  variables are null and the reason is \<open>No better spot found\<close>.
\<close>

theorem findBestSpots_stay_reason_witness:
  "recommendation (hd (findBestSpots CONFIG [baganB1] [farSpot])) =
     Stay ''No better spot found''
       \<lparr> current_score = 75, expectedCatch = \<lparr> min' = 45, max' = 68, avg = 56 \<rparr> \<rparr>
   \<and> bestSpot (searchSpots CONFIG baganB1 [farSpot]) = None
   \<and> bestAnalysis (searchSpots CONFIG baganB1 [farSpot]) = None"
  using findBestSpots_stay_reason[of CONFIG baganB1 "[farSpot]" "[baganB1]"]
  by (simp add: findBestSpots_def recommend_def search_far)
     (simp add: baganB1_def estimateCatch_def Math_round_def)

section \<open>Properties of the scan for candidate spots\<close>

lemma visitPoint_scores:
  "list_all (\<lambda>s. 70 \<le> score s) (spots st) \<Longrightarrow>
   list_all (\<lambda>s. 70 \<le> score s) (spots (visitPoint net center bagans radiusKm dt a b st p))"
  by (simp add: visitPoint_def Let_def)

lemma foldl_visitPoint_scores:
  "list_all (\<lambda>s. 70 \<le> score s) (spots st) \<Longrightarrow>
   list_all (\<lambda>s. 70 \<le> score s) (spots (foldl (visitPoint net center bagans radiusKm dt a b) st grid))"
proof (induction grid arbitrary: st)
  case Nil then show ?case by simp
next
  case (Cons p grid)
  show ?case using Cons.IH[OF visitPoint_scores[OF Cons.prems]] by simp
qed

lemma sort_desc: "sorted_wrt (\<lambda>a b. score b \<le> score a) (sort_key (\<lambda>s. - score s) xs)"
proof -
  have "sorted (map (\<lambda>s. - score s) (sort_key (\<lambda>s. - score s) xs))" by (rule sorted_sort_key)
  then show ?thesis by (simp add: sorted_map)
qed

lemma list_all_take: "list_all P xs \<Longrightarrow> list_all P (take n xs)"
  by (auto simp: list_all_iff dest: in_set_takeD)

lemma scan_found_scores:
  "list_all (\<lambda>s. 70 \<le> score s)
     (spots (foldl (visitPoint net center bagans radiusKm dt a b) \<lparr> spots = [], spotId = n \<rparr> grid))"
  by (rule foldl_visitPoint_scores) simp

lemma list_all_sort_key: "list_all P (sort_key f xs) = list_all P xs"
  by (simp add: list_all_iff)

text \<open>A request that fails makes its fetcher return the estimated reading.\<close>

lemma getChlorophyllData_estimated:
  "chlorophyllData net la lo dt = Inl e \<Longrightarrow>
   getChlorophyllData net la lo dt = Inr \<lparr> reading_value = 0.35, source = ''Estimated'' \<rparr>"
  by (simp add: getChlorophyllData_def)

lemma getSST_estimated:
  "sstData net la lo dt = Inl e \<Longrightarrow>
   getSST net la lo dt = Inr \<lparr> reading_value = 28.5, source = ''Estimated'' \<rparr>"
  by (simp add: getSST_def)

lemma getMarineWeather_estimated:
  "marineData net la lo = Inl e \<Longrightarrow>
   getMarineWeather net la lo = Inr \<lparr> reading_value = 0.8, source = ''Estimated'' \<rparr>"
  by (simp add: getMarineWeather_def)

lemma getWindData_estimated:
  "\<not> openWeatherKey net \<or> windData net la lo = Inl e \<Longrightarrow>
   getWindData net la lo = Inr \<lparr> reading_value = 4.5, source = ''Estimated'' \<rparr>"
  by (auto simp: getWindData_def)

text \<open>No fetcher rejects, so the \<open>try\<close> block of \<open>estimateScoreForLocation\<close> never throws.\<close>

lemma getChlorophyllData_fulfils: "\<exists>r. getChlorophyllData net la lo dt = Inr r"
  by (simp add: getChlorophyllData_def split: sum.splits option.splits)

lemma getSST_fulfils: "\<exists>r. getSST net la lo dt = Inr r"
  by (simp add: getSST_def Let_def split: sum.splits option.splits)

lemma getMarineWeather_fulfils: "\<exists>r. getMarineWeather net la lo = Inr r"
  by (simp add: getMarineWeather_def split: sum.splits option.splits)

lemma getWindData_fulfils: "\<exists>r. getWindData net la lo = Inr r"
  by (simp add: getWindData_def split: sum.splits option.splits)

lemma tryScore_fulfils:
  "\<exists>sc. tryScore net la lo dt = Inr sc \<and> estimateScoreForLocation net la lo dt = sc"
proof -
  obtain c t m w where
    "getChlorophyllData net la lo dt = Inr c" "getSST net la lo dt = Inr t"
    "getMarineWeather net la lo = Inr m" "getWindData net la lo = Inr w"
    using getChlorophyllData_fulfils getSST_fulfils getMarineWeather_fulfils getWindData_fulfils
    by metis
  then show ?thesis by (simp add: tryScore_def estimateScoreForLocation_def)
qed

lemma estimated_score:
  assumes "chlorophyllData net la lo dt = Inl e1" "sstData net la lo dt = Inl e2"
    "marineData net la lo = Inl e3" "\<not> openWeatherKey net \<or> windData net la lo = Inl e4"
  shows "estimateScoreForLocation net la lo dt =
           70 + earned (moonBlock (Some (real_of_int
                  (illumination (getMoonPhase (year dt) (month dt) (day dt))))))"
proof -
  let ?m = "Some (real_of_int (illumination (getMoonPhase (year dt) (month dt) (day dt))))"
  let ?d = "\<lparr> chlorophyll = Some 0.35, sst = Some 28.5, moon = ?m,
              waveHeight = Some 0.8, wind = Some 4.5 \<rparr>"
  have "estimateScoreForLocation net la lo dt = final_score (calculateZoneScore ?d)"
    by (simp add: estimateScoreForLocation_def tryScore_def
          getChlorophyllData_estimated[OF assms(1)] getSST_estimated[OF assms(2)]
          getMarineWeather_estimated[OF assms(3)] getWindData_estimated[OF assms(4)])
  also have "\<dots> = actualScore (calculateZoneScore ?d)" by (rule final_actual)
  also have "\<dots> = 70 + earned (moonBlock ?m)"
    by (simp add: actualScore_sum chlorophyllBlock_def sstBlock_def waveBlock_def windBlock_def
          earned_def)
  finally show ?thesis .
qed

lemma moon_points: "5 \<le> earned (moonBlock (Some x)) \<and> earned (moonBlock (Some x)) \<le> 20"
  by (simp add: earned_def moonBlock_def)

lemma moonFraction_2024_01_11: "moonFraction 2024 1 11 = 59 / 2953"
  by (simp add: moonFraction_def)

lemma moonFraction_2024_06_18: "moonFraction 2024 6 18 = 1194 / 2953"
  by (simp add: moonFraction_def)

lemma illumination_2024_01_11: "illumination (getMoonPhase 2024 1 11) = 2"
  by (simp add: getMoonPhase_def Let_def moonFraction_2024_01_11 Math_round_def)

lemma illumination_2024_06_18: "illumination (getMoonPhase 2024 6 18) = 40"
  by (simp add: getMoonPhase_def Let_def moonFraction_2024_06_18 Math_round_def)

lemma offline_fails:
  "chlorophyllData offline la lo dt = Inl (Error ''timeout of 10000ms exceeded'')"
  "sstData offline la lo dt = Inl (Error ''timeout of 10000ms exceeded'')"
  "marineData offline la lo = Inl (Error ''timeout of 10000ms exceeded'')"
  "windData offline la lo = Inl (Error ''timeout of 10000ms exceeded'')"
  by (simp_all add: offline_def)

lemma offline_january11: "estimateScoreForLocation offline la lo january11 = 90"
  using estimated_score[OF offline_fails(1) offline_fails(2) offline_fails(3)
          disjI2[OF offline_fails(4)]]
  by (simp add: january11_def illumination_2024_01_11 earned_def moonBlock_def)

lemma showNat_1: "showNat (Suc 0) = ''1''" "showNat (Suc (Suc 0)) = ''2''"
  by (subst showNat.simps, simp)+

lemma scan_one_point:
  assumes "70 \<le> estimateScoreForLocation net (lat kapal) (lng kapal) dt"
  shows "scanAreaForSpots net kapal [] 0 dt =
     [\<lparr> lat = - 6.75, lng = 105.52, id' = ''SPOT_1'', name = ''Candidate 2'',
        score = real_of_int (estimateScoreForLocation net (lat kapal) (lng kapal) dt),
        estimatedCatch =
          Some (estimateCatch (real_of_int (estimateScoreForLocation net (lat kapal) (lng kapal) dt))) \<rparr>]"
proof -
  have v: "visitPoint net kapal [] 0 dt a b \<lparr> spots = [], spotId = Suc 0 \<rparr> (0, 0) =
     \<lparr> spots = [\<lparr> lat = - 6.75, lng = 105.52, id' = ''SPOT_1'', name = ''Candidate 2'',
        score = real_of_int (estimateScoreForLocation net (lat kapal) (lng kapal) dt),
        estimatedCatch =
          Some (estimateCatch (real_of_int (estimateScoreForLocation net (lat kapal) (lng kapal) dt))) \<rparr>],
       spotId = Suc (Suc 0) \<rparr>" for a b
    unfolding visitPoint_def Let_def using assms
    by (simp add: calculateDistance_same showNat_1) (simp add: kapal_def toFixed_def)
  show ?thesis unfolding scanAreaForSpots_def Let_def by (simp add: v)
qed

lemma scan_no_point:
  assumes "\<not> 70 \<le> estimateScoreForLocation net (lat kapal) (lng kapal) dt"
  shows "scanAreaForSpots net kapal [] 0 dt = []"
proof -
  have v: "visitPoint net kapal [] 0 dt a b \<lparr> spots = [], spotId = Suc 0 \<rparr> (0, 0) =
     \<lparr> spots = [], spotId = Suc 0 \<rparr>" for a b
    unfolding visitPoint_def Let_def using assms
    by (simp add: calculateDistance_same)
  show ?thesis unfolding scanAreaForSpots_def Let_def by (simp add: v)
qed

text \<open>
  Scans whose outcome does not depend on which grid points lie within the radius: every
  point scoring the same, and the vessel's own position among the points.
\<close>

lemma visitPoint_same_score:
  assumes "\<forall>la lo. estimateScoreForLocation net la lo dt = c"
    "list_all (\<lambda>s. score s = real_of_int c) (spots st)"
  shows "list_all (\<lambda>s. score s = real_of_int c)
           (spots (visitPoint net center bagans radiusKm dt a b st p))"
  using assms by (simp add: visitPoint_def Let_def)

lemma foldl_visitPoint_same_score:
  assumes "\<forall>la lo. estimateScoreForLocation net la lo dt = c"
  shows "list_all (\<lambda>s. score s = real_of_int c) (spots st) \<Longrightarrow>
         list_all (\<lambda>s. score s = real_of_int c)
           (spots (foldl (visitPoint net center bagans radiusKm dt a b) st grid))"
proof (induction grid arbitrary: st)
  case Nil then show ?case by simp
next
  case (Cons p grid)
  show ?case using Cons.IH[OF visitPoint_same_score[OF assms Cons.prems]] by simp
qed

lemma scan_same_score:
  assumes "\<forall>la lo. estimateScoreForLocation net la lo dt = c"
  shows "list_all (\<lambda>s. score s = real_of_int c) (scanAreaForSpots net center bagans radiusKm dt)"
  unfolding scanAreaForSpots_def Let_def
  by (intro list_all_take)
     (simp only: list_all_sort_key, rule foldl_visitPoint_same_score[OF assms], simp)

lemma visitPoint_low_score:
  assumes "\<forall>la lo. estimateScoreForLocation net la lo dt < 70" "spots st = []"
  shows "spots (visitPoint net center bagans radiusKm dt a b st p) = []"
  using assms by (simp add: visitPoint_def Let_def not_le[symmetric])

lemma foldl_visitPoint_low_score:
  assumes "\<forall>la lo. estimateScoreForLocation net la lo dt < 70"
  shows "spots st = [] \<Longrightarrow>
         spots (foldl (visitPoint net center bagans radiusKm dt a b) st grid) = []"
proof (induction grid arbitrary: st)
  case Nil then show ?case by simp
next
  case (Cons p grid)
  show ?case using Cons.IH[OF visitPoint_low_score[OF assms Cons.prems]] by simp
qed

lemma scan_low_score:
  assumes "\<forall>la lo. estimateScoreForLocation net la lo dt < 70"
  shows "scanAreaForSpots net center bagans radiusKm dt = []"
  unfolding scanAreaForSpots_def Let_def
  by (simp add: foldl_visitPoint_low_score[OF assms])

lemma visitPoint_keeps: "spots st \<noteq> [] \<Longrightarrow>
   spots (visitPoint net center bagans radiusKm dt a b st p) \<noteq> []"
  by (simp add: visitPoint_def Let_def)

lemma foldl_visitPoint_keeps: "spots st \<noteq> [] \<Longrightarrow>
   spots (foldl (visitPoint net center bagans radiusKm dt a b) st grid) \<noteq> []"
proof (induction grid arbitrary: st)
  case Nil then show ?case by simp
next
  case (Cons p grid)
  show ?case using Cons.IH[OF visitPoint_keeps[OF Cons.prems]] by simp
qed

lemma visitPoint_center:
  assumes "0 \<le> radiusKm" "70 \<le> estimateScoreForLocation net (lat center) (lng center) dt"
  shows "spots (visitPoint net center [] radiusKm dt a b st (0, 0)) \<noteq> []"
  using assms by (simp add: visitPoint_def Let_def calculateDistance_same)

lemma foldl_visitPoint_center:
  assumes "0 \<le> radiusKm" "70 \<le> estimateScoreForLocation net (lat center) (lng center) dt"
  shows "(0, 0) \<in> set grid \<Longrightarrow>
         spots (foldl (visitPoint net center [] radiusKm dt a b) st grid) \<noteq> []"
proof (induction grid arbitrary: st)
  case Nil then show ?case by simp
next
  case (Cons p grid)
  show ?case
  proof (cases "p = (0, 0)")
    case True
    from foldl_visitPoint_keeps[OF visitPoint_center[OF assms]]
    show ?thesis using True by simp
  next
    case False
    with Cons.prems have "(0, 0) \<in> set grid" by simp
    from Cons.IH[OF this] show ?thesis by simp
  qed
qed

lemma scan_center:
  assumes "0 \<le> radiusKm" "70 \<le> estimateScoreForLocation net (lat center) (lng center) dt"
  shows "scanAreaForSpots net center [] radiusKm dt \<noteq> []"
proof -
  define n where "n = \<lceil>radiusKm / 0.5\<rceil>"
  have "0 \<le> n" unfolding n_def using assms(1) by simp
  then have z: "0 \<in> set [- n..n]" by simp
  then have "(0, 0) \<in> set (map (\<lambda>lngStep. (0, lngStep)) [- n..n])" by (simp add: image_iff)
  with z have "\<exists>latStep \<in> set [- n..n].
                 (0, 0) \<in> set (map (\<lambda>lngStep. (latStep, lngStep)) [- n..n])"
    by (rule_tac x = 0 in bexI)
  then have "(0, 0) \<in> set (concat (map (\<lambda>latStep. map (\<lambda>lngStep. (latStep, lngStep)) [- n..n])
                                         [- n..n]))"
    by (simp only: set_concat set_map UN_iff image_image bex_simps)
  from foldl_visitPoint_center[OF assms this]
  have "spots (foldl (visitPoint net center [] radiusKm dt (0.5 / 111)
                  (0.5 / (111 * cos (lat center * pi / 180))))
                \<lparr> spots = [], spotId = 1 \<rparr>
                (concat (map (\<lambda>latStep. map (\<lambda>lngStep. (latStep, lngStep)) [- n..n])
                                 [- n..n]))) \<noteq> []" .
  then have "length (scanAreaForSpots net center [] radiusKm dt) \<noteq> 0"
    unfolding scanAreaForSpots_def Let_def n_def by simp
  then show ?thesis by simp
qed

text \<open>
  C9, as the specification states it, fails: on 11 January 2024, with every request of the
  four fetchers failing, the point is not given the fixed score 75. Each fetcher catches
  its own failure and returns its estimated reading, the \<open>catch\<close> of
  \<open>estimateScoreForLocation\<close> is not reached, and the score is 90: 20 + 25 + 15 + 10 for
  the estimated readings and 20 for the moon.
\<close>

theorem scanAreaForSpots_fallback_counterexample:
  "chlorophyllData offline (- 6.75) 105.52 january11 = Inl (Error ''timeout of 10000ms exceeded'') \<and>
   sstData offline (- 6.75) 105.52 january11 = Inl (Error ''timeout of 10000ms exceeded'') \<and>
   marineData offline (- 6.75) 105.52 = Inl (Error ''timeout of 10000ms exceeded'') \<and>
   windData offline (- 6.75) 105.52 = Inl (Error ''timeout of 10000ms exceeded'') \<and>
   estimateScoreForLocation offline (- 6.75) 105.52 january11 = 90 \<and>
   estimateScoreForLocation offline (- 6.75) 105.52 january11 \<noteq> 75 \<and>
   map score (scanAreaForSpots offline kapal [] 0 january11) = [90]"
proof -
  have s: "estimateScoreForLocation offline (- 6.75) 105.52 january11 = 90"
    by (rule offline_january11)
  have "70 \<le> estimateScoreForLocation offline (lat kapal) (lng kapal) january11"
    by (simp add: offline_january11)
  from scan_one_point[OF this] have "map score (scanAreaForSpots offline kapal [] 0 january11) = [90]"
    by (simp add: offline_january11)
  then show ?thesis using s offline_fails by simp
qed

text \<open>
  C9, amended: for every network, vessel position, list of bagans, radius and date, the
  scan returns only spots of score 70 or more, in descending order of score, and at most 20
  of them; and no failure of a fetch ends the scan or reaches the \<open>catch\<close> of
  \<open>estimateScoreForLocation\<close> (its fixed 75 is never assigned): a fetcher whose request
  fails returns its estimated reading (chlorophyll 0.35, temperature 28.5, wave height 0.8,
  wind 4.5), and a point whose four requests all fail gets the score 70 plus the points of
  the moon phase, between 75 and 90.
\<close>

theorem scanAreaForSpots_candidates:
  "list_all (\<lambda>s. 70 \<le> score s) (scanAreaForSpots net center bagans radiusKm dt) \<and>
   sorted_wrt (\<lambda>a b. score b \<le> score a) (scanAreaForSpots net center bagans radiusKm dt) \<and>
   length (scanAreaForSpots net center bagans radiusKm dt) \<le> 20 \<and>
   (\<forall>la lo. \<exists>sc. tryScore net la lo dt = Inr sc \<and> estimateScoreForLocation net la lo dt = sc) \<and>
   (\<forall>la lo e. chlorophyllData net la lo dt = Inl e \<longrightarrow>
      getChlorophyllData net la lo dt = Inr \<lparr> reading_value = 0.35, source = ''Estimated'' \<rparr>) \<and>
   (\<forall>la lo e. sstData net la lo dt = Inl e \<longrightarrow>
      getSST net la lo dt = Inr \<lparr> reading_value = 28.5, source = ''Estimated'' \<rparr>) \<and>
   (\<forall>la lo e. marineData net la lo = Inl e \<longrightarrow>
      getMarineWeather net la lo = Inr \<lparr> reading_value = 0.8, source = ''Estimated'' \<rparr>) \<and>
   (\<forall>la lo e. \<not> openWeatherKey net \<or> windData net la lo = Inl e \<longrightarrow>
      getWindData net la lo = Inr \<lparr> reading_value = 4.5, source = ''Estimated'' \<rparr>) \<and>
   (\<forall>la lo e1 e2 e3 e4.
      chlorophyllData net la lo dt = Inl e1 \<and> sstData net la lo dt = Inl e2 \<and>
      marineData net la lo = Inl e3 \<and> (\<not> openWeatherKey net \<or> windData net la lo = Inl e4) \<longrightarrow>
      estimateScoreForLocation net la lo dt =
        70 + earned (moonBlock (Some (real_of_int
               (illumination (getMoonPhase (year dt) (month dt) (day dt)))))) \<and>
      75 \<le> estimateScoreForLocation net la lo dt \<and>
      estimateScoreForLocation net la lo dt \<le> 90)"
proof -
  have a: "list_all (\<lambda>s. 70 \<le> score s) (scanAreaForSpots net center bagans radiusKm dt)"
    unfolding scanAreaForSpots_def Let_def
    by (intro list_all_take) (simp only: list_all_sort_key scan_found_scores)
  have b: "sorted_wrt (\<lambda>a b. score b \<le> score a) (scanAreaForSpots net center bagans radiusKm dt)"
    unfolding scanAreaForSpots_def Let_def by (intro sorted_wrt_take sort_desc)
  have c: "length (scanAreaForSpots net center bagans radiusKm dt) \<le> 20"
    unfolding scanAreaForSpots_def Let_def by simp
  have d: "\<forall>la lo. \<exists>sc. tryScore net la lo dt = Inr sc \<and> estimateScoreForLocation net la lo dt = sc"
    by (intro allI tryScore_fulfils)
  have f1: "\<forall>la lo e. chlorophyllData net la lo dt = Inl e \<longrightarrow>
      getChlorophyllData net la lo dt = Inr \<lparr> reading_value = 0.35, source = ''Estimated'' \<rparr>"
    by (intro allI impI) (rule getChlorophyllData_estimated)
  have f2: "\<forall>la lo e. sstData net la lo dt = Inl e \<longrightarrow>
      getSST net la lo dt = Inr \<lparr> reading_value = 28.5, source = ''Estimated'' \<rparr>"
    by (intro allI impI) (rule getSST_estimated)
  have f3: "\<forall>la lo e. marineData net la lo = Inl e \<longrightarrow>
      getMarineWeather net la lo = Inr \<lparr> reading_value = 0.8, source = ''Estimated'' \<rparr>"
    by (intro allI impI) (rule getMarineWeather_estimated)
  have f4: "\<forall>la lo e. \<not> openWeatherKey net \<or> windData net la lo = Inl e \<longrightarrow>
      getWindData net la lo = Inr \<lparr> reading_value = 4.5, source = ''Estimated'' \<rparr>"
    by (intro allI impI) (rule getWindData_estimated)
  have g: "\<forall>la lo e1 e2 e3 e4.
      chlorophyllData net la lo dt = Inl e1 \<and> sstData net la lo dt = Inl e2 \<and>
      marineData net la lo = Inl e3 \<and> (\<not> openWeatherKey net \<or> windData net la lo = Inl e4) \<longrightarrow>
      estimateScoreForLocation net la lo dt =
        70 + earned (moonBlock (Some (real_of_int
               (illumination (getMoonPhase (year dt) (month dt) (day dt)))))) \<and>
      75 \<le> estimateScoreForLocation net la lo dt \<and>
      estimateScoreForLocation net la lo dt \<le> 90"
  proof (intro allI impI, elim conjE)
    fix la lo e1 e2 e3 e4
    assume "chlorophyllData net la lo dt = Inl e1" "sstData net la lo dt = Inl e2"
      "marineData net la lo = Inl e3" "\<not> openWeatherKey net \<or> windData net la lo = Inl e4"
    from estimated_score[OF this]
    show "estimateScoreForLocation net la lo dt =
        70 + earned (moonBlock (Some (real_of_int
               (illumination (getMoonPhase (year dt) (month dt) (day dt)))))) \<and>
      75 \<le> estimateScoreForLocation net la lo dt \<and>
      estimateScoreForLocation net la lo dt \<le> 90"
      using moon_points[of "real_of_int (illumination (getMoonPhase (year dt) (month dt) (day dt)))"]
      by simp
  qed
  show ?thesis by (intro conjI a b c d f1 f2 f3 f4 g)
qed

text \<open>
  C9, amended, on 18 June 2024. With every request failing, each point scores 70 + 15 = 85:
  with radius 0 the grid is the vessel's own position, the one candidate; with radius 5
  (a grid of 21 by 21 points) the scan returns candidates, at most 20, all of score 85.
  With every request delivering a poor reading each point scores 15 and the scan returns
  nothing.
\<close>

theorem scanAreaForSpots_candidates_witness:
  "estimateScoreForLocation offline (- 6.75) 105.52 june18 = 85 \<and>
   scanAreaForSpots offline kapal [] 0 june18 =
     [\<lparr> lat = - 6.75, lng = 105.52, id' = ''SPOT_1'', name = ''Candidate 2'', score = 85,
        estimatedCatch = Some \<lparr> min' = 51, max' = 77, avg = 64 \<rparr> \<rparr>] \<and>
   scanAreaForSpots offline kapal [] 5 june18 \<noteq> [] \<and>
   list_all (\<lambda>s. score s = 85) (scanAreaForSpots offline kapal [] 5 june18) \<and>
   length (scanAreaForSpots offline kapal [] 5 june18) \<le> 20 \<and>
   estimateScoreForLocation murky (- 6.75) 105.52 june18 = 15 \<and>
   scanAreaForSpots murky kapal [] 5 june18 = []"
proof -
  note T = scanAreaForSpots_candidates[of offline kapal "[]" 5 june18]
  note F = T[THEN conjunct2, THEN conjunct2, THEN conjunct2, THEN conjunct2, THEN conjunct2,
             THEN conjunct2, THEN conjunct2, THEN conjunct2, rule_format]
  have all: "chlorophyllData offline la lo june18 = Inl (Error ''timeout of 10000ms exceeded'') \<and>
      sstData offline la lo june18 = Inl (Error ''timeout of 10000ms exceeded'') \<and>
      marineData offline la lo = Inl (Error ''timeout of 10000ms exceeded'') \<and>
      (\<not> openWeatherKey offline \<or>
       windData offline la lo = Inl (Error ''timeout of 10000ms exceeded''))" for la lo
    by (simp add: offline_fails)
  have e: "estimateScoreForLocation offline la lo june18 = 85" for la lo
    using F[OF all, of la lo]
    by (simp add: june18_def illumination_2024_06_18 earned_def moonBlock_def)
  have c: "70 \<le> estimateScoreForLocation offline (lat kapal) (lng kapal) june18"
    by (simp add: e)
  from scan_one_point[OF c]
  have s: "scanAreaForSpots offline kapal [] 0 june18 =
     [\<lparr> lat = - 6.75, lng = 105.52, id' = ''SPOT_1'', name = ''Candidate 2'', score = 85,
        estimatedCatch = Some \<lparr> min' = 51, max' = 77, avg = 64 \<rparr> \<rparr>]"
    by (simp add: e estimateCatch_def Math_round_def)
  have ne: "scanAreaForSpots offline kapal [] 5 june18 \<noteq> []"
    by (rule scan_center[OF _ c]) simp
  have same: "list_all (\<lambda>s. score s = 85) (scanAreaForSpots offline kapal [] 5 june18)"
    using scan_same_score[of offline june18 85 kapal "[]" 5] e by simp
  have len: "length (scanAreaForSpots offline kapal [] 5 june18) \<le> 20"
    using T by simp
  have m: "estimateScoreForLocation murky la lo june18 = 15" for la lo
    by (simp add: estimateScoreForLocation_def tryScore_def getChlorophyllData_def getSST_def
          getMarineWeather_def getWindData_def murky_def final_actual actualScore_sum
          chlorophyllBlock_def sstBlock_def waveBlock_def windBlock_def moonBlock_def earned_def
          june18_def illumination_2024_06_18 toFixed_def)
  have n: "scanAreaForSpots murky kapal [] 5 june18 = []"
    by (rule scan_low_score) (simp add: m)
  show ?thesis using e s ne same len m n by simp
qed

section \<open>Properties of the route search\<close>












lemma generatePermutations_two: "generatePermutations [a, b] = [[a, b], [b, a]]"
proof -
  have one: "generatePermutations [x] = [[x]]" for x :: 'a
    by (subst generatePermutations.simps) simp
  have "[0..<length [a, b]] = [0, Suc 0]" by (simp add: upt_rec)
  then show ?thesis by (subst generatePermutations.simps) (simp add: one)
qed

lemma meridian_km: "\<bar>la2 - la1\<bar> < 180 \<Longrightarrow>
   calculateDistance la1 lo la2 lo = 6371 * \<bar>la2 - la1\<bar> * pi / 180"
  by (simp add: calculateDistance_meridian toRad_def abs_mult)







section \<open>Properties of the choice among the spots\<close>

lemma shouldMoveBagan_within:
  assumes "\<not> calculateDistance (lat b) (lng b) (lat s) (lng s) > maxTowDistance cfg"
  shows "\<exists>a. shouldMoveBagan cfg b s = Analysed (minProfitThreshold cfg \<le> exactNetProfit cfg b s) a
           \<and> netProfit a = Math_round (exactNetProfit cfg b s)"
  using assms by (simp add: shouldMoveBagan_def Let_def exactNetProfit_def)

lemma considerSpot_take:
  assumes "qualifies cfg b x" "maxProfit st < real_of_int (shownProfit cfg b x)"
  shows "considerSpot cfg b st x = \<lparr> bestSpot = Some x,
           bestAnalysis = decision_analysis (shouldMoveBagan cfg b x),
           maxProfit = real_of_int (shownProfit cfg b x) \<rparr>"
  using assms by (auto simp: considerSpot_def qualifies_def shownProfit_def split: decision.splits)

lemma considerSpot_skip:
  assumes "\<not> qualifies cfg b x \<or> real_of_int (shownProfit cfg b x) \<le> maxProfit st"
     "minProfitThreshold cfg \<le> maxProfit st"
  shows "considerSpot cfg b st x = st"
  using assms by (auto simp: considerSpot_def qualifies_def shownProfit_def split: decision.splits)

lemma considerSpot_picked:
  assumes "picked cfg b cands st"
  shows "picked cfg b (cands @ [x]) (considerSpot cfg b st x)"
proof -
  from assms consider
    (none) "bestSpot st = None" "bestAnalysis st = None" "maxProfit st = minProfitThreshold cfg"
           "\<forall>q \<in> set cands. \<not> qualifies cfg b q"
  | (some) s pre post where "cands = pre @ s # post" "bestSpot st = Some s"
        "bestAnalysis st = decision_analysis (shouldMoveBagan cfg b s)"
        "maxProfit st = real_of_int (shownProfit cfg b s)" "qualifies cfg b s"
        "\<forall>q \<in> set pre. qualifies cfg b q \<longrightarrow> shownProfit cfg b q < shownProfit cfg b s"
        "\<forall>q \<in> set post. qualifies cfg b q \<longrightarrow> shownProfit cfg b q \<le> shownProfit cfg b s"
    unfolding picked_def by (elim disjE exE conjE) blast+
  then show ?thesis
  proof cases
    case none
    show ?thesis
    proof (cases "qualifies cfg b x")
      case True
      then have "maxProfit st < real_of_int (shownProfit cfg b x)"
        using none(3) by (auto simp: qualifies_def shownProfit_def split: decision.splits)
      from considerSpot_take[OF True this] True none(4)
      show ?thesis unfolding picked_def
        by (intro disjI2 exI[of _ x] exI[of _ cands] exI[of _ "[]"]) simp
    next
      case False
      then have "considerSpot cfg b st x = st" using none(3) by (intro considerSpot_skip) auto
      then show ?thesis unfolding picked_def using none False by simp
    qed
  next
    case some
    have thr: "minProfitThreshold cfg \<le> maxProfit st"
      using some(4,5) by (auto simp: qualifies_def shownProfit_def split: decision.splits)
    show ?thesis
    proof (cases "qualifies cfg b x \<and> shownProfit cfg b s < shownProfit cfg b x")
      case True
      then have "maxProfit st < real_of_int (shownProfit cfg b x)" using some(4) by simp
      from considerSpot_take[OF conjunct1[OF True] this]
      have st': "considerSpot cfg b st x = \<lparr> bestSpot = Some x,
           bestAnalysis = decision_analysis (shouldMoveBagan cfg b x),
           maxProfit = real_of_int (shownProfit cfg b x) \<rparr>" .
      have "\<forall>q \<in> set cands. qualifies cfg b q \<longrightarrow> shownProfit cfg b q < shownProfit cfg b x"
        using True some(1,6,7) by fastforce
      then show ?thesis unfolding picked_def st' using True
        by (intro disjI2 exI[of _ x] exI[of _ cands] exI[of _ "[]"]) simp
    next
      case False
      then have "\<not> qualifies cfg b x \<or> real_of_int (shownProfit cfg b x) \<le> maxProfit st"
        using some(4) by auto
      from considerSpot_skip[OF this thr] have st': "considerSpot cfg b st x = st" .
      have "\<forall>q \<in> set (post @ [x]). qualifies cfg b q \<longrightarrow> shownProfit cfg b q \<le> shownProfit cfg b s"
        using False some(7) by auto
      then show ?thesis unfolding picked_def st' using some
        by (intro disjI2 exI[of _ s] exI[of _ pre] exI[of _ "post @ [x]"]) simp
    qed
  qed
qed

lemma searchSpots_picked: "picked cfg b cands (searchSpots cfg b cands)"
proof (induction cands rule: rev_induct)
  case Nil
  show ?case by (simp add: picked_def searchSpots_def)
next
  case (snoc x xs)
  from considerSpot_picked[OF snoc.IH, of x] show ?case by (simp add: searchSpots_def)
qed


lemma Math_round_ge: "real_of_int k \<le> x \<Longrightarrow> k \<le> Math_round x"
  unfolding Math_round_def by (simp add: le_floor_iff)

lemma qualifies_iff:
  "qualifies cfg b s \<longleftrightarrow>
     \<not> calculateDistance (lat b) (lng b) (lat s) (lng s) > maxTowDistance cfg \<and>
     minProfitThreshold cfg \<le> exactNetProfit cfg b s \<and>
     minProfitThreshold cfg < real_of_int (Math_round (exactNetProfit cfg b s))"
proof (cases "calculateDistance (lat b) (lng b) (lat s) (lng s) > maxTowDistance cfg")
  case True
  then show ?thesis by (simp add: qualifies_def shouldMoveBagan_rejected)
next
  case False
  from shouldMoveBagan_within[OF False] obtain a where
    "shouldMoveBagan cfg b s = Analysed (minProfitThreshold cfg \<le> exactNetProfit cfg b s) a"
    "netProfit a = Math_round (exactNetProfit cfg b s)" by blast
  then show ?thesis using False by (simp add: qualifies_def)
qed

lemma shownProfit_within:
  assumes "\<not> calculateDistance (lat b) (lng b) (lat s) (lng s) > maxTowDistance cfg"
  shows "shownProfit cfg b s = Math_round (exactNetProfit cfg b s)"
proof -
  from shouldMoveBagan_within[OF assms] obtain a where
    "shouldMoveBagan cfg b s = Analysed (minProfitThreshold cfg \<le> exactNetProfit cfg b s) a"
    "netProfit a = Math_round (exactNetProfit cfg b s)" by blast
  then show ?thesis by (simp add: shownProfit_def)
qed

lemma recommendation_recommend:
  "recommendation (recommend cfg b cands) =
     (case bestSpot (searchSpots cfg b cands) of
        Some s \<Rightarrow> Move s (bestAnalysis (searchSpots cfg b cands))
      | None \<Rightarrow> Stay ''No better spot found''
                 \<lparr> current_score = score b, expectedCatch = estimateCatch (score b) \<rparr>)"
proof (cases "bestSpot (searchSpots cfg b cands)")
  case None
  then obtain why cur where r: "recommendation (recommend cfg b cands) = Stay why cur"
    and c: "cur = \<lparr> current_score = score b, expectedCatch = estimateCatch (score b) \<rparr>"
    by (simp add: recommend_def Let_def)
  from recommend_stay[OF r] r c None show ?thesis by simp
next
  case (Some s)
  then show ?thesis by (simp add: recommend_def Let_def)
qed

lemma CONFIG_fields:
  "fuelPricePerLiter CONFIG = 10000" "fuelConsumptionTow CONFIG = 4" "catchPricePerKg CONFIG = 35000"
  "minProfitThreshold CONFIG = 50000" "towSpeedKnots CONFIG = 5 / 2" "setupTimeMinutes CONFIG = 20"
  "maxTowDistance CONFIG = 5"
  by (simp_all add: CONFIG_def)

lemma avg_75: "avg (estimateCatch 75) = 56" by (simp add: estimateCatch_def Math_round_def)
lemma avg_89: "avg (estimateCatch 89) = 67" by (simp add: estimateCatch_def Math_round_def)

lemma near_distance:
  "calculateDistance (lat baganB1) (lng baganB1) (lat nearSpot) (lng nearSpot) = 6371 * 0.002 * pi / 180"
  by (simp add: baganB1_def nearSpot_def meridian_km)

lemma close_distance:
  "calculateDistance (lat baganB1) (lng baganB1) (lat closeSpot) (lng closeSpot) = 6371 * 0.00000001 * pi / 180"
  by (simp add: baganB1_def closeSpot_def meridian_km)

lemma same_distance:
  "calculateDistance (lat baganB1) (lng baganB1) (lat sameSpot) (lng sameSpot) = 0"
  by (simp add: baganB1_def sameSpot_def calculateDistance_same)

lemma exact_near: "exactNetProfit CONFIG baganB1 nearSpot = 385000 - 40000 * (6371 * 0.002 * pi / 180)"
  unfolding exactNetProfit_def near_distance
  by (simp add: baganB1_def nearSpot_def avg_75 avg_89 CONFIG_fields calculateFuelCost_def)

lemma exact_close: "exactNetProfit CONFIG baganB1 closeSpot = 385000 - 40000 * (6371 * 0.00000001 * pi / 180)"
  unfolding exactNetProfit_def close_distance
  by (simp add: baganB1_def closeSpot_def avg_75 avg_89 CONFIG_fields calculateFuelCost_def)

lemma exact_same: "exactNetProfit CONFIG baganB1 sameSpot = 385000"
  unfolding exactNetProfit_def same_distance
  by (simp add: baganB1_def sameSpot_def avg_75 avg_89 CONFIG_fields calculateFuelCost_def)

lemma round_close: "Math_round (exactNetProfit CONFIG baganB1 closeSpot) = 385000"
proof -
  define e where "e = 40000 * (6371 * 0.00000001 * pi / 180)"
  have "0 < e" unfolding e_def using pi_gt_zero by simp
  moreover have "e < 1 / 2" unfolding e_def using pi_less_4 by simp
  ultimately have "\<lfloor>385000 - e + 1 / 2\<rfloor> = 385000"
    by (intro floor_unique) simp_all
  then show ?thesis unfolding exact_close Math_round_def e_def .
qed

lemma round_same: "Math_round (exactNetProfit CONFIG baganB1 sameSpot) = 385000"
  unfolding exact_same Math_round_def by simp

lemma qualifiesI:
  assumes "calculateDistance (lat b) (lng b) (lat s) (lng s) \<le> maxTowDistance cfg"
    "minProfitThreshold cfg \<le> exactNetProfit cfg b s"
    "minProfitThreshold cfg < real_of_int (Math_round (exactNetProfit cfg b s))"
  shows "qualifies cfg b s"
  using assms unfolding qualifies_iff by simp

lemma qualifies_near: "qualifies CONFIG baganB1 nearSpot"
proof -
  have "real_of_int 50001 \<le> exactNetProfit CONFIG baganB1 nearSpot"
    unfolding exact_near using pi_less_4 by simp
  from Math_round_ge[OF this] this show ?thesis
    by (intro qualifiesI) (use pi_less_4 in \<open>simp_all add: near_distance CONFIG_fields\<close>)
qed

lemma qualifies_close: "qualifies CONFIG baganB1 closeSpot"
proof (rule qualifiesI)
  show "calculateDistance (lat baganB1) (lng baganB1) (lat closeSpot) (lng closeSpot)
          \<le> maxTowDistance CONFIG"
    using pi_less_4 by (simp add: close_distance CONFIG_fields)
  show "minProfitThreshold CONFIG \<le> exactNetProfit CONFIG baganB1 closeSpot"
    using pi_less_4 by (simp add: exact_close CONFIG_fields)
  show "minProfitThreshold CONFIG < real_of_int (Math_round (exactNetProfit CONFIG baganB1 closeSpot))"
    by (simp add: round_close CONFIG_fields)
qed

lemma qualifies_same: "qualifies CONFIG baganB1 sameSpot"
proof (rule qualifiesI)
  show "calculateDistance (lat baganB1) (lng baganB1) (lat sameSpot) (lng sameSpot)
          \<le> maxTowDistance CONFIG"
    by (simp add: same_distance CONFIG_fields)
  show "minProfitThreshold CONFIG \<le> exactNetProfit CONFIG baganB1 sameSpot"
    by (simp add: exact_same CONFIG_fields)
  show "minProfitThreshold CONFIG < real_of_int (Math_round (exactNetProfit CONFIG baganB1 sameSpot))"
    by (simp add: round_same CONFIG_fields)
qed

lemma not_qualifies_far: "\<not> qualifies CONFIG baganB1 farSpot"
  unfolding qualifies_iff using far_distance by (simp add: CONFIG_fields)

lemma shown_close: "shownProfit CONFIG baganB1 closeSpot = 385000"
  using qualifies_close round_close by (simp add: qualifies_iff shownProfit_within)
lemma shown_same: "shownProfit CONFIG baganB1 sameSpot = 385000"
  using qualifies_same round_same by (simp add: qualifies_iff shownProfit_within)

lemma search_tie: "bestSpot (searchSpots CONFIG baganB1 [closeSpot, sameSpot]) = Some closeSpot"
proof -
  have 1: "considerSpot CONFIG baganB1
             \<lparr> bestSpot = None, bestAnalysis = None, maxProfit = minProfitThreshold CONFIG \<rparr> closeSpot
        = \<lparr> bestSpot = Some closeSpot,
            bestAnalysis = decision_analysis (shouldMoveBagan CONFIG baganB1 closeSpot),
            maxProfit = real_of_int (shownProfit CONFIG baganB1 closeSpot) \<rparr>"
    by (rule considerSpot_take[OF qualifies_close]) (simp add: shown_close CONFIG_fields)
  have 2: "considerSpot CONFIG baganB1
             \<lparr> bestSpot = Some closeSpot,
            bestAnalysis = decision_analysis (shouldMoveBagan CONFIG baganB1 closeSpot),
            maxProfit = real_of_int (shownProfit CONFIG baganB1 closeSpot) \<rparr> sameSpot
        = \<lparr> bestSpot = Some closeSpot,
            bestAnalysis = decision_analysis (shouldMoveBagan CONFIG baganB1 closeSpot),
            maxProfit = real_of_int (shownProfit CONFIG baganB1 closeSpot) \<rparr>"
    by (rule considerSpot_skip) (simp_all add: shown_close shown_same CONFIG_fields)
  show ?thesis unfolding searchSpots_def by (simp add: 1 2)
qed

text \<open>
  C4, as the specification states it, fails: under the default configuration, for the
  bagan B1 and the spots C (a millimetre away) and D (at the bagan), in this order, both
  spots are worth the move and above the threshold, the unrounded net profit of D (385000)
  is strictly greater than that of C (385000 less a fuel cost below half a rupiah), and
  \<open>findBestSpots\<close> chooses C: both round to 385000 and the first one stays.
\<close>

theorem findBestSpots_unrounded_counterexample:
  "shouldMove (shouldMoveBagan CONFIG baganB1 closeSpot) \<and>
   shouldMove (shouldMoveBagan CONFIG baganB1 sameSpot) \<and>
   minProfitThreshold CONFIG < exactNetProfit CONFIG baganB1 closeSpot \<and>
   exactNetProfit CONFIG baganB1 closeSpot < exactNetProfit CONFIG baganB1 sameSpot \<and>
   bestSpot (searchSpots CONFIG baganB1 [closeSpot, sameSpot]) = Some closeSpot \<and>
   closeSpot \<noteq> sameSpot"
proof -
  have w1: "shouldMove (shouldMoveBagan CONFIG baganB1 closeSpot)"
    using qualifies_close by (auto simp: qualifies_def split: decision.splits)
  have w2: "shouldMove (shouldMoveBagan CONFIG baganB1 sameSpot)"
    using qualifies_same by (auto simp: qualifies_def split: decision.splits)
  have t: "minProfitThreshold CONFIG < exactNetProfit CONFIG baganB1 closeSpot"
    unfolding exact_close using pi_less_4 by (simp add: CONFIG_fields)
  have lt: "exactNetProfit CONFIG baganB1 closeSpot < exactNetProfit CONFIG baganB1 sameSpot"
    unfolding exact_close exact_same using pi_gt_zero by simp
  have ne: "closeSpot \<noteq> sameSpot" by (simp add: closeSpot_def sameSpot_def)
  show ?thesis using w1 w2 t lt ne search_tie by simp
qed

text \<open>
  C4, amended: for every bagan, \<open>findBestSpots\<close> selects the first spot of the list whose
  rounded net profit (\<open>Math.round\<close> of the net profit, as the analysis reports it) is
  maximal among the spots that pass the test, and recommends to stay when none passes. A
  spot passes when it is within the tow distance, its unrounded net profit is at least
  \<open>minProfitThreshold\<close> (\<open>shouldMove\<close>) and its rounded net profit is strictly above
  \<open>minProfitThreshold\<close>. The comparison between spots uses the rounded values.
\<close>

theorem findBestSpots_rounded_selection:
  "(bestSpot (searchSpots cfg b cands) = None \<longleftrightarrow> (\<forall>q \<in> set cands. \<not> qualifies cfg b q)) \<and>
   (\<forall>s. bestSpot (searchSpots cfg b cands) = Some s \<longrightarrow>
      (\<exists>pre post. cands = pre @ s # post \<and> qualifies cfg b s \<and>
         bestAnalysis (searchSpots cfg b cands) = decision_analysis (shouldMoveBagan cfg b s) \<and>
         (\<forall>q\<in>set pre. qualifies cfg b q \<longrightarrow> shownProfit cfg b q < shownProfit cfg b s) \<and>
         (\<forall>q\<in>set post. qualifies cfg b q \<longrightarrow> shownProfit cfg b q \<le> shownProfit cfg b s))) \<and>
   (\<forall>s. qualifies cfg b s \<longleftrightarrow>
      \<not> calculateDistance (lat b) (lng b) (lat s) (lng s) > maxTowDistance cfg \<and>
      minProfitThreshold cfg \<le> exactNetProfit cfg b s \<and>
      minProfitThreshold cfg < real_of_int (Math_round (exactNetProfit cfg b s))) \<and>
   (\<forall>s. \<not> calculateDistance (lat b) (lng b) (lat s) (lng s) > maxTowDistance cfg \<longrightarrow>
      shownProfit cfg b s = Math_round (exactNetProfit cfg b s)) \<and>
   recommendation (recommend cfg b cands) =
     (case bestSpot (searchSpots cfg b cands) of
        Some s \<Rightarrow> Move s (bestAnalysis (searchSpots cfg b cands))
      | None \<Rightarrow> Stay ''No better spot found''
                 \<lparr> current_score = score b, expectedCatch = estimateCatch (score b) \<rparr>)"
proof -
  have P: "picked cfg b cands (searchSpots cfg b cands)" by (rule searchSpots_picked)
  have a: "bestSpot (searchSpots cfg b cands) = None \<longleftrightarrow> (\<forall>q \<in> set cands. \<not> qualifies cfg b q)"
    using P unfolding picked_def by auto
  have b: "\<exists>pre post. cands = pre @ s # post \<and> qualifies cfg b s \<and>
         bestAnalysis (searchSpots cfg b cands) = decision_analysis (shouldMoveBagan cfg b s) \<and>
         (\<forall>q\<in>set pre. qualifies cfg b q \<longrightarrow> shownProfit cfg b q < shownProfit cfg b s) \<and>
         (\<forall>q\<in>set post. qualifies cfg b q \<longrightarrow> shownProfit cfg b q \<le> shownProfit cfg b s)"
    if "bestSpot (searchSpots cfg b cands) = Some s" for s
    using P that unfolding picked_def by (elim disjE exE conjE) auto
  have b': "\<forall>s. bestSpot (searchSpots cfg b cands) = Some s \<longrightarrow>
      (\<exists>pre post. cands = pre @ s # post \<and> qualifies cfg b s \<and>
         bestAnalysis (searchSpots cfg b cands) = decision_analysis (shouldMoveBagan cfg b s) \<and>
         (\<forall>q\<in>set pre. qualifies cfg b q \<longrightarrow> shownProfit cfg b q < shownProfit cfg b s) \<and>
         (\<forall>q\<in>set post. qualifies cfg b q \<longrightarrow> shownProfit cfg b q \<le> shownProfit cfg b s))"
    using b by (intro allI impI)
  have c: "\<forall>s. qualifies cfg b s \<longleftrightarrow>
      \<not> calculateDistance (lat b) (lng b) (lat s) (lng s) > maxTowDistance cfg \<and>
      minProfitThreshold cfg \<le> exactNetProfit cfg b s \<and>
      minProfitThreshold cfg < real_of_int (Math_round (exactNetProfit cfg b s))"
    by (intro allI qualifies_iff)
  have d: "\<forall>s. \<not> calculateDistance (lat b) (lng b) (lat s) (lng s) > maxTowDistance cfg \<longrightarrow>
      shownProfit cfg b s = Math_round (exactNetProfit cfg b s)"
    by (intro allI impI shownProfit_within)
  show ?thesis by (intro conjI a b' c d recommendation_recommend)
qed

text \<open>
  C4, amended, at the bagan B1 with the far spot and the near spot as candidates: the far
  spot does not pass, the near spot does, and the recommendation is to move there.
\<close>

theorem findBestSpots_rounded_selection_witness:
  "\<not> qualifies CONFIG baganB1 farSpot \<and> qualifies CONFIG baganB1 nearSpot \<and>
   bestSpot (searchSpots CONFIG baganB1 [farSpot, nearSpot]) = Some nearSpot \<and>
   recommendation (recommend CONFIG baganB1 [farSpot, nearSpot]) =
     Move nearSpot (decision_analysis (shouldMoveBagan CONFIG baganB1 nearSpot))"
proof -
  note T = findBestSpots_rounded_selection[of CONFIG baganB1 "[farSpot, nearSpot]"]
  from T qualifies_near have "bestSpot (searchSpots CONFIG baganB1 [farSpot, nearSpot]) \<noteq> None"
    by auto
  then obtain s where s: "bestSpot (searchSpots CONFIG baganB1 [farSpot, nearSpot]) = Some s" by auto
  with T obtain pre post where pp: "[farSpot, nearSpot] = pre @ s # post" and q: "qualifies CONFIG baganB1 s"
    and an: "bestAnalysis (searchSpots CONFIG baganB1 [farSpot, nearSpot]) =
       decision_analysis (shouldMoveBagan CONFIG baganB1 s)"
    by blast
  from pp have "s \<in> set [farSpot, nearSpot]" by (metis in_set_conv_decomp)
  with q not_qualifies_far have sn: "s = nearSpot" by auto
  from T s an sn have "recommendation (recommend CONFIG baganB1 [farSpot, nearSpot]) =
     Move nearSpot (decision_analysis (shouldMoveBagan CONFIG baganB1 nearSpot))" by simp
  then show ?thesis using not_qualifies_far qualifies_near s sn by simp
qed

section \<open>Properties of the main function\<close>

lemma search_single:
  assumes "qualifies cfg b s"
  shows "searchSpots cfg b [s] = \<lparr> bestSpot = Some s,
           bestAnalysis = decision_analysis (shouldMoveBagan cfg b s),
           maxProfit = real_of_int (shownProfit cfg b s) \<rparr>"
proof -
  have "minProfitThreshold cfg < real_of_int (shownProfit cfg b s)"
    using assms by (auto simp: qualifies_def shownProfit_def split: decision.splits)
  then show ?thesis unfolding searchSpots_def
    using considerSpot_take[OF assms, of "\<lparr> bestSpot = None, bestAnalysis = None, maxProfit = minProfitThreshold cfg \<rparr>"]
    by simp
qed

lemma recommend_single:
  assumes "qualifies cfg b s"
  shows "recommend cfg b [s] =
     \<lparr> bagan = b, recommendation = Move s (decision_analysis (shouldMoveBagan cfg b s)) \<rparr>"
  by (simp add: recommend_def Let_def search_single[OF assms])

lemma estimateTotals_single: "estimateTotals (Some (SingleRoute r d t)) = Inl TypeError"
  by (simp add: estimateTotals_def)

lemma single_move_TypeError:
  assumes "moveItems (findBestSpots cfg (currentBagans inp) (candidateSpots inp)) = [item]"
  shows "optimizeBaganOperations cfg inp = Inl TypeError"
  using assms
  by (simp add: optimizeBaganOperations_def Let_def optimizeRoute_def optimizeRouteBy_def
        estimateTotals_single)

text \<open>
  C2 fails on the code: with the bagan B1 and the near spot, one bagan is recommended to
  move, \<open>optimizeRoute\<close> returns the single-step route, which has no \<open>summary\<close>, and
  \<open>optimizeBaganOperations\<close> ends in a TypeError when it reads
  \<open>optimizedRoute.summary.totalDistance\<close>; no result is returned.
\<close>

theorem optimizeBaganOperations_single_move_fails:
  "moveItems (findBestSpots CONFIG (currentBagans singleMove) (candidateSpots singleMove))
     = [itemA] \<and>
   optimizeRoute CONFIG (kapalPosition singleMove) [itemA]
     = Inr (Some (SingleRoute [itemA] 0 0)) \<and>
   plan_summary (SingleRoute [itemA] 0 0) = None \<and>
   optimizeBaganOperations CONFIG singleMove = Inl TypeError"
proof -
  have m: "moveItems (findBestSpots CONFIG (currentBagans singleMove) (candidateSpots singleMove)) = [itemA]"
    by (simp add: singleMove_def findBestSpots_def recommend_single[OF qualifies_near]
          moveItems_def List.map_filter_simps itemA_def)
  have "calculateDistance (lat kapal) (lng kapal) (lat baganB1) (lng baganB1) = 0"
    by (simp add: kapal_def baganB1_def calculateDistance_same)
  then have r: "optimizeRoute CONFIG (kapalPosition singleMove) [itemA] = Inr (Some (SingleRoute [itemA] 0 0))"
    by (simp add: optimizeRoute_def optimizeRouteBy_def singleMove_def itemA_def)
  show ?thesis using m r single_move_TypeError[OF m] by simp
qed

lemma avg_68: "avg (estimateCatch 68) = 51" by (simp add: estimateCatch_def Math_round_def)

lemma shouldMoveBagan_on_the_spot:
  assumes "calculateDistance (lat b) (lng b) (lat s) (lng s) = 0" "0 \<le> maxTowDistance cfg"
  shows "\<exists>a. shouldMoveBagan cfg b s = Analysed (minProfitThreshold cfg \<le> exactNetProfit cfg b s) a
           \<and> netProfit a = Math_round (exactNetProfit cfg b s) \<and> distance a = 0 \<and> towTime a = 0"
  using assms
  by (simp add: shouldMoveBagan_def Let_def exactNetProfit_def toFixed_def calculateTowTime_def
        Math_round_def)

lemma same_distance3:
  "calculateDistance (lat baganB3) (lng baganB3) (lat sameSpot) (lng sameSpot) = 0"
  by (simp add: baganB3_def sameSpot_def calculateDistance_same)

lemma exact_same3: "exactNetProfit CONFIG baganB3 sameSpot = 560000"
  unfolding exactNetProfit_def same_distance3
  by (simp add: baganB3_def sameSpot_def avg_68 avg_89 CONFIG_fields calculateFuelCost_def)

lemma qualifies_same3: "qualifies CONFIG baganB3 sameSpot"
proof (rule qualifiesI)
  show "calculateDistance (lat baganB3) (lng baganB3) (lat sameSpot) (lng sameSpot)
          \<le> maxTowDistance CONFIG"
    by (simp add: same_distance3 CONFIG_fields)
  show "minProfitThreshold CONFIG \<le> exactNetProfit CONFIG baganB3 sameSpot"
    by (simp add: exact_same3 CONFIG_fields)
  show "minProfitThreshold CONFIG < real_of_int (Math_round (exactNetProfit CONFIG baganB3 sameSpot))"
    by (simp add: exact_same3 Math_round_def CONFIG_fields)
qed

lemma estimateTotals_zero_fuel:
  assumes "totalFuelCost s = 0"
  shows "\<exists>t. estimateTotals (Some (FullRoute r s)) = Inr (Some t) \<and> est_totalFuelCost t = 0 \<and>
           est_roi t = (if 0 < totalExpectedProfit s then PosInfinity
                        else if totalExpectedProfit s < 0 then NegInfinity else NaN)"
  using assms by (simp add: estimateTotals_def js_divide_def)

text \<open>
  C8 fails on the code: with the vessel, two bagans and the candidate spot at one position,
  both bagans are recommended to move, the route has a summary whose \<open>totalFuelCost\<close> is
  0, and \<open>roi\<close> is the quotient \<open>945000 / 0 * 100\<close>, that is \<open>Infinity\<close>: the division is
  not guarded.
\<close>

theorem optimizeBaganOperations_roi_unguarded:
  "\<exists>res totals.
     optimizeBaganOperations CONFIG colocated = Inr res \<and>
     res_bagansToMove (res_summary res) = 2 \<and>
     res_estimatedTotals res = Some totals \<and>
     est_totalFuelCost totals = 0 \<and>
     est_totalExpectedProfit totals = 945000 \<and>
     est_roi totals = PosInfinity"
proof -
  have mx: "0 \<le> maxTowDistance CONFIG" by (simp add: CONFIG_fields)
  from shouldMoveBagan_on_the_spot[OF same_distance mx] obtain a1 where
    a1: "decision_analysis (shouldMoveBagan CONFIG baganB1 sameSpot) = Some a1"
      "netProfit a1 = 385000" "distance a1 = 0" "towTime a1 = 0"
    by (auto simp: round_same)
  from shouldMoveBagan_on_the_spot[OF same_distance3 mx] obtain a3 where
    a3: "decision_analysis (shouldMoveBagan CONFIG baganB3 sameSpot) = Some a3"
      "netProfit a3 = 560000" "distance a3 = 0" "towTime a3 = 0"
    by (auto simp: exact_same3 Math_round_def)
  define i1 where "i1 = \<lparr> item_bagan = baganB1, item_targetSpot = sameSpot, item_analysis = Some a1 \<rparr>"
  define i3 where "i3 = \<lparr> item_bagan = baganB3, item_targetSpot = sameSpot, item_analysis = Some a3 \<rparr>"
  have m: "moveItems (findBestSpots CONFIG (currentBagans colocated) (candidateSpots colocated)) = [i1, i3]"
    by (simp add: colocated_def findBestSpots_def recommend_single[OF qualifies_same]
          recommend_single[OF qualifies_same3] moveItems_def List.map_filter_simps a1 a3 i1_def i3_def)
  have d13: "routeDistance kapal [i1, i3] = 0"
    by (simp add: routeDistance_def i1_def i3_def kapal_def baganB1_def baganB3_def sameSpot_def
          position_def calculateDistance_same)
  have d31: "routeDistance kapal [i3, i1] = 0"
    by (simp add: routeDistance_def i1_def i3_def kapal_def baganB1_def baganB3_def sameSpot_def
          position_def calculateDistance_same)
  have sel: "bestRoute (selectRoute (routeDistance kapal) (generatePermutations [i1, i3]))
               = Some [i1, i3]"
    by (simp add: generatePermutations_two selectRoute_def considerRoute_def Let_def d13 d31)
  have det: "\<exists>steps. routeDetailsFrom CONFIG 0 kapal 0 0 [i1, i3] = Inr (steps, 0, 40)"
    by (simp add: i1_def i3_def a1 a3 Let_def kapal_def baganB1_def baganB3_def sameSpot_def
          position_def calculateDistance_same calculateTowTime_def CONFIG_fields)
  then obtain steps where st: "routeDetailsFrom CONFIG 0 kapal 0 0 [i1, i3] = Inr (steps, 0, 40)" ..
  have prof: "sumExpectedProfit [i1, i3] = 945000"
    by (simp add: sumExpectedProfit_def i1_def i3_def a1 a3)
  define s where "s = \<lparr> totalBagans = 2, totalDistance = 0, totalTime = 40,
              totalFuelCost = 0, totalExpectedProfit = 945000 \<rparr>"
  have desc: "describeRoute CONFIG kapal [i1, i3] = Inr (Some (FullRoute steps s))"
    unfolding describeRoute_def st prof
    by (simp add: s_def toFixed_def Math_round_def calculateFuelCost_def)
  have route: "optimizeRoute CONFIG kapal [i1, i3] = Inr (Some (FullRoute steps s))"
    unfolding optimizeRoute_def optimizeRouteBy_def sel by (simp add: desc)
  have "totalFuelCost s = 0" by (simp add: s_def)
  from estimateTotals_zero_fuel[OF this, of steps] obtain t where
    t: "estimateTotals (Some (FullRoute steps s)) = Inr (Some t)" "est_totalFuelCost t = 0"
       "est_roi t = PosInfinity" by (auto simp: s_def)
  have tp: "est_totalExpectedProfit t = 945000"
    using t(1) by (auto simp: estimateTotals_def s_def)
  have "\<exists>res. optimizeBaganOperations CONFIG colocated = Inr res \<and>
     res_bagansToMove (res_summary res) = 2 \<and> res_estimatedTotals res = Some t"
    using m route t(1)
    by (simp add: optimizeBaganOperations_def Let_def colocated_def)
  then show ?thesis using t tp by blast
qed

end
